theory Spec2Isabelle
  imports Main
begin

section \<open>Prayer-room booking: data model\<close>

text \<open>
  The repository has two halves that meet in the Firestore collection \<open>bookings\<close>:
  the Cloud Functions triggers (\<open>onBookingCreated\<close>, \<open>onBookingUpdated\<close>,
  \<open>onBookingDeleted\<close> and their helpers) and the browser page
  (\<open>handleBookingSubmit\<close>, \<open>handleJoinClass\<close>).

  A booking object is a JavaScript object whose properties may be absent. Every booking
  object the page writes carries \<open>date\<close> and \<open>time\<close>; every other property is optional,
  \<open>None\<close> standing for \<open>undefined\<close>. The document id is not part of the data: the
  collection is a list of pairs of id and data.
\<close>

record inlet_credential =
  credentialId :: string
  code :: string
  issuedAt :: int

record booking =
  date :: string
  time :: string
  status :: "string option"
  resourceId :: "string option"
  name :: "string option"
  email :: "string option"
  phone :: "string option"
  isClass :: "bool option"
  className :: "string option"
  hostName :: "string option"
  hostEmail :: "string option"
  maxParticipants :: "int option"
  participants :: "string list option"
  participantCount :: "int option"
  inlet :: "inlet_credential option"
  error :: "string option"
  accessCode :: "string option"
  createdAt :: "string option"

text \<open>A document of the \<open>mail\<close> collection, read by the Trigger Email extension.\<close>

record mail_item =
  mailTo :: "string option"
  templateName :: string
  dataUserName :: "string option"
  dataBookingDate :: string
  dataBookingTime :: string
  dataAccessCode :: "string option"
  dataBookingType :: "string option"

text \<open>
  The two INLET operations the triggers use. The source holds placeholders at the place
  of the HTTP requests; the log records one entry each time control reaches such a
  placeholder, with the arguments the request would carry. Instants are kept as
  milliseconds since the epoch (the source passes their \<open>toISOString\<close> rendering).
\<close>

datatype gateway_call =
    CreateCredential string int int "string option" "string option"
  | RevokeCredential string

record state =
  bookings :: "(string \<times> booking) list"
  mail :: "mail_item list"
  gateway :: "gateway_call list"

text \<open>
  What one invocation of a trigger reads from its host and cannot compute:
  \<^item> \<open>localDate d t\<close>: the time value of \<open>new Date(year, month - 1, day, hour, minute)\<close>
    built by \<open>parseBookingDateTime\<close> from the \<open>Number\<close>-converted components of
    \<open>d\<close> and \<open>t\<close> in the function's time zone, \<open>None\<close> for an Invalid Date;
  \<^item> \<open>dateNow\<close>: \<open>Date.now()\<close>;
  \<^item> \<open>randomCode\<close>: \<open>Math.floor(1000 + Math.random() * 9000)\<close>;
  \<^item> \<open>serverTimestamp\<close>: the value the store writes for
    \<open>FieldValue.serverTimestamp()\<close>;
  \<^item> \<open>localeDate\<close>, \<open>localeTime\<close>: \<open>toLocaleDateString\<close> and \<open>toLocaleTimeString\<close>
    for \<open>en-GB\<close> with the options of the source;
  \<^item> \<open>rejectUndefined f\<close>: the message of the error the Admin SDK throws when the data
    passed to \<open>add\<close> holds \<open>undefined\<close> in the field \<open>f\<close>.
\<close>

record env =
  localDate :: "string \<Rightarrow> string \<Rightarrow> int option"
  dateNow :: nat
  randomCode :: nat
  serverTimestamp :: int
  localeDate :: "int option \<Rightarrow> string"
  localeTime :: "int option \<Rightarrow> string"
  rejectUndefined :: "string \<Rightarrow> string"

text \<open>
  What a trigger returns: \<open>null\<close>, \<open>{success: true}\<close> (with the credential id when the
  source adds it) or \<open>{success: false, error}\<close>.
\<close>

datatype result =
    Null
  | Success "string option"
  | Failure string

section \<open>JavaScript helpers\<close>

text \<open>\<open>a || b\<close> on possibly absent strings: the empty string is falsy.\<close>

definition js_or :: "string option \<Rightarrow> string option \<Rightarrow> string option" where
  "js_or a b = (case a of None \<Rightarrow> b | Some s \<Rightarrow> if s = [] then b else Some s)"

definition js_or_default :: "string option \<Rightarrow> string \<Rightarrow> string" where
  "js_or_default a d = (case a of None \<Rightarrow> d | Some s \<Rightarrow> if s = [] then d else s)"

text \<open>A template literal prints an absent value as \<open>undefined\<close>.\<close>

definition js_show :: "string option \<Rightarrow> string" where
  "js_show a = (case a of None \<Rightarrow> ''undefined'' | Some s \<Rightarrow> s)"

text \<open>\<open>Number.prototype.toString\<close> on a non-negative integer.\<close>

fun string_of_nat :: "nat \<Rightarrow> string" where
  "string_of_nat n =
     (if n < 10 then [''0123456789'' ! n]
      else string_of_nat (n div 10) @ [''0123456789'' ! (n mod 10)])"

declare string_of_nat.simps [simp del]

text \<open>
  \<open>new Date(ms)\<close> clips its argument: beyond 8.64e15 ms from the epoch the Date is
  invalid. \<open>toISOString\<close> throws a RangeError on an invalid Date.
\<close>

definition newDate :: "int \<Rightarrow> int option" where
  "newDate ms = (if \<bar>ms\<bar> \<le> 8640000000000000 then Some ms else None)"

definition toISOString :: "int option \<Rightarrow> string + int" where
  "toISOString d = (case d of None \<Rightarrow> Inl ''Invalid time value'' | Some ms \<Rightarrow> Inr ms)"

text \<open>
  \<open>getTime()\<close> of an invalid Date is NaN, and \<open>new Date(NaN + 3600000)\<close> is invalid
  again.
\<close>

definition plusHour :: "int option \<Rightarrow> int option" where
  "plusHour d = (case d of None \<Rightarrow> None | Some ms \<Rightarrow> newDate (ms + 60 * 60 * 1000))"

section \<open>Cloud Functions: INLET gateway\<close>

text \<open>
  \<open>RESOURCE_MAPPING[resourceId]\<close> is a property read on an object literal with the one
  own property \<open>prayer_room\<close>. The names \<open>Object.prototype\<close> defines are found through
  the prototype chain; what is read for them is a built-in function or object, truthy as
  well, and the model keeps the property name in its place.
\<close>

definition objectPrototypeKeys :: "string list" where
  "objectPrototypeKeys =
     [''constructor'', ''toString'', ''toLocaleString'', ''valueOf'', ''hasOwnProperty'',
      ''isPrototypeOf'', ''propertyIsEnumerable'', ''__proto__'', ''__defineGetter__'',
      ''__defineSetter__'', ''__lookupGetter__'', ''__lookupSetter__'']"

definition RESOURCE_MAPPING :: "string \<Rightarrow> string option" where
  "RESOURCE_MAPPING r =
     (if r = ''prayer_room'' then Some ''YOUR_INLET_LOCK_ID''
      else if r \<in> set objectPrototypeKeys then Some r
      else None)"

record credential =
  credId :: string
  credAccessCode :: string
  credLockId :: string
  credStartTime :: int
  credEndTime :: int

definition createInletCredential ::
  "env \<Rightarrow> string \<Rightarrow> int \<Rightarrow> int \<Rightarrow> string option \<Rightarrow> string option \<Rightarrow> state
     \<Rightarrow> (string + credential) \<times> state" where
  "createInletCredential e rid startTime endTime userName userEmail s =
     (case RESOURCE_MAPPING rid of
        None \<Rightarrow> (Inl (''No INLET lock mapping for resource: '' @ rid), s)
      | Some lockId \<Rightarrow>
          (Inr \<lparr>credId = ''inlet_cred_'' @ string_of_nat (dateNow e),
                credAccessCode = string_of_nat (randomCode e),
                credLockId = lockId,
                credStartTime = startTime,
                credEndTime = endTime\<rparr>,
           s\<lparr>gateway := gateway s @
                [CreateCredential lockId startTime endTime userName userEmail]\<rparr>))"

definition revokeInletCredential :: "string \<Rightarrow> state \<Rightarrow> state" where
  "revokeInletCredential cid s = s\<lparr>gateway := gateway s @ [RevokeCredential cid]\<rparr>"

section \<open>Cloud Functions: helpers\<close>

text \<open>The Firestore query of \<open>validateSlotFree\<close>: three \<open>where\<close> clauses.\<close>

definition slotQuery :: "(string \<times> booking) list \<Rightarrow> string \<Rightarrow> string \<Rightarrow> (string \<times> booking) list" where
  "slotQuery docs d t =
     filter (\<lambda>(i, b). date b = d \<and> time b = t \<and>
                      (status b = Some ''confirmed'' \<or> status b = Some ''pending'')) docs"

fun noOtherDoc :: "(string \<times> booking) list \<Rightarrow> string \<Rightarrow> bool" where
  "noOtherDoc [] excludeBookingId = True"
| "noOtherDoc ((i, b) # docs) excludeBookingId =
     (if i \<noteq> excludeBookingId then False else noOtherDoc docs excludeBookingId)"

definition validateSlotFree :: "state \<Rightarrow> string \<Rightarrow> string \<Rightarrow> string \<Rightarrow> bool" where
  "validateSlotFree s d t excludeBookingId =
     noOtherDoc (slotQuery (bookings s) d t) excludeBookingId"

definition parseBookingDateTime :: "env \<Rightarrow> string \<Rightarrow> string \<Rightarrow> int option" where
  "parseBookingDateTime e dateStr timeStr = localDate e dateStr timeStr"

text \<open>
  \<open>ref.update(fields)\<close> on the document with the given id. Every field the triggers
  pass to it has a value.
\<close>

definition updateDoc :: "string \<Rightarrow> (booking \<Rightarrow> booking) \<Rightarrow> state \<Rightarrow> state" where
  "updateDoc i f s =
     s\<lparr>bookings := map (\<lambda>(j, b). if j = i then (j, f b) else (j, b)) (bookings s)\<rparr>"

text \<open>
  \<open>db.collection('mail').add(data)\<close>. Firestore is initialised with its default
  settings, under which \<open>add\<close> throws on data that holds \<open>undefined\<close>, naming the first
  such field, and stores nothing. Of the fields the triggers pass, \<open>to\<close> and
  \<open>template.data.userName\<close> can be \<open>undefined\<close>.
\<close>

definition addMail :: "env \<Rightarrow> mail_item \<Rightarrow> state \<Rightarrow> string + state" where
  "addMail e m s =
     (if mailTo m = None then Inl (rejectUndefined e ''to'')
      else if dataUserName m = None then Inl (rejectUndefined e ''template.data.userName'')
      else Inr (s\<lparr>mail := mail s @ [m]\<rparr>))"

text \<open>
  \<open>booking.inlet && booking.inlet.credentialId\<close>: the id of the credential the record
  holds, when the sub-record is there and its id is a non-empty string.
\<close>

definition heldCredential :: "booking \<Rightarrow> string option" where
  "heldCredential b =
     (case inlet b of
        None \<Rightarrow> None
      | Some c \<Rightarrow> if credentialId c = [] then None else Some (credentialId c))"

section \<open>Cloud Functions: e-mail queue\<close>

definition queueConfirmationEmail ::
  "env \<Rightarrow> booking \<Rightarrow> credential \<Rightarrow> state \<Rightarrow> string + state" where
  "queueConfirmationEmail e b c s =
     (let bookingDate = parseBookingDateTime e (date b) (time b)
      in addMail e
           \<lparr>mailTo = js_or (email b) (hostEmail b),
            templateName = ''booking-confirmation'',
            dataUserName = js_or (name b) (hostName b),
            dataBookingDate = localeDate e bookingDate,
            dataBookingTime = localeTime e bookingDate,
            dataAccessCode = Some (credAccessCode c),
            dataBookingType =
              Some (if isClass b = Some True then ''Class: '' @ js_show (className b)
                    else ''Individual Booking'')\<rparr> s)"

definition queueCancellationEmail :: "env \<Rightarrow> booking \<Rightarrow> state \<Rightarrow> string + state" where
  "queueCancellationEmail e b s =
     addMail e
       \<lparr>mailTo = js_or (email b) (hostEmail b),
        templateName = ''booking-cancellation'',
        dataUserName = js_or (name b) (hostName b),
        dataBookingDate = date b,
        dataBookingTime = time b,
        dataAccessCode = None,
        dataBookingType = None\<rparr> s"

definition queueUpdateEmail ::
  "env \<Rightarrow> booking \<Rightarrow> credential \<Rightarrow> state \<Rightarrow> string + state" where
  "queueUpdateEmail e b c s =
     (let bookingDate = parseBookingDateTime e (date b) (time b)
      in addMail e
           \<lparr>mailTo = js_or (email b) (hostEmail b),
            templateName = ''booking-update'',
            dataUserName = js_or (name b) (hostName b),
            dataBookingDate = localeDate e bookingDate,
            dataBookingTime = localeTime e bookingDate,
            dataAccessCode = Some (credAccessCode c),
            dataBookingType = None\<rparr> s)"

section \<open>Cloud Functions: triggers\<close>

text \<open>
  The sub-record both \<open>onBookingCreated\<close> and \<open>handleTimeChange\<close> write under \<open>inlet\<close>.
\<close>

definition inletOf :: "env \<Rightarrow> credential \<Rightarrow> inlet_credential" where
  "inletOf e c =
     \<lparr>credentialId = credId c, code = credAccessCode c, issuedAt = serverTimestamp e\<rparr>"

text \<open>
  The \<open>try\<close> block of \<open>onBookingCreated\<close>. The first component is \<open>Inl\<close> of the message
  when the block throws and \<open>Inr\<close> of the returned value otherwise; the second is the
  state at that moment: what was written before a throw stays written.
\<close>

definition onBookingCreated_try ::
  "env \<Rightarrow> string \<Rightarrow> booking \<Rightarrow> state \<Rightarrow> (string + result) \<times> state" where
  "onBookingCreated_try e bookingId b s =
     (if \<not> validateSlotFree s (date b) (time b) bookingId then
        (Inr Null,
         updateDoc bookingId
           (\<lambda>d. d\<lparr>status := Some ''conflict'',
                   error := Some ''Time slot is no longer available''\<rparr>) s)
      else
        let startTime = parseBookingDateTime e (date b) (time b);
            endTime = plusHour startTime
        in case toISOString startTime of
             Inl m \<Rightarrow> (Inl m, s)
           | Inr st \<Rightarrow>
               (case toISOString endTime of
                  Inl m \<Rightarrow> (Inl m, s)
                | Inr en \<Rightarrow>
                    (case createInletCredential e (js_or_default (resourceId b) ''prayer_room'')
                            st en (js_or (name b) (hostName b)) (js_or (email b) (hostEmail b)) s of
                       (Inl m, s1) \<Rightarrow> (Inl m, s1)
                     | (Inr c, s1) \<Rightarrow>
                         let s2 = updateDoc bookingId
                                    (\<lambda>d. d\<lparr>status := Some ''confirmed'',
                                            inlet := Some (inletOf e c)\<rparr>) s1
                         in (case queueConfirmationEmail e b c s2 of
                               Inl m \<Rightarrow> (Inl m, s2)
                             | Inr s3 \<Rightarrow> (Inr (Success (Some (credId c))), s3)))))"

definition onBookingCreated :: "env \<Rightarrow> string \<Rightarrow> booking \<Rightarrow> state \<Rightarrow> result \<times> state" where
  "onBookingCreated e bookingId b s =
     (if status b \<noteq> Some ''pending'' then (Null, s)
      else case onBookingCreated_try e bookingId b s of
             (Inr r, s1) \<Rightarrow> (r, s1)
           | (Inl m, s1) \<Rightarrow>
               (Failure m,
                updateDoc bookingId (\<lambda>d. d\<lparr>status := Some ''error'', error := Some m\<rparr>) s1))"

text \<open>
  \<open>handleBookingCancellation\<close>, \<open>handleTimeChange\<close> and \<open>onBookingUpdated\<close> have no
  \<open>try\<close>: an exception leaves the trigger, and what was done before it stays done.
\<close>

definition handleBookingCancellation ::
  "env \<Rightarrow> string \<Rightarrow> booking \<Rightarrow> state \<Rightarrow> (string + result) \<times> state" where
  "handleBookingCancellation e bookingId b s =
     (let s1 = (case heldCredential b of
                  None \<Rightarrow> s
                | Some cid \<Rightarrow> revokeInletCredential cid s)
      in case queueCancellationEmail e b s1 of
           Inl m \<Rightarrow> (Inl m, s1)
         | Inr s2 \<Rightarrow> (Inr (Success None), s2))"

definition handleTimeChange ::
  "env \<Rightarrow> string \<Rightarrow> booking \<Rightarrow> booking \<Rightarrow> state \<Rightarrow> (string + result) \<times> state" where
  "handleTimeChange e bookingId before after s =
     (case heldCredential before of
        None \<Rightarrow> (Inr (Success None), s)
      | Some cid \<Rightarrow>
          let s1 = revokeInletCredential cid s;
              startTime = parseBookingDateTime e (date after) (time after);
              endTime = plusHour startTime
          in case toISOString startTime of
               Inl m \<Rightarrow> (Inl m, s1)
             | Inr st \<Rightarrow>
                 (case toISOString endTime of
                    Inl m \<Rightarrow> (Inl m, s1)
                  | Inr en \<Rightarrow>
                      (case createInletCredential e
                              (js_or_default (resourceId after) ''prayer_room'') st en
                              (js_or (name after) (hostName after))
                              (js_or (email after) (hostEmail after)) s1 of
                         (Inl m, s2) \<Rightarrow> (Inl m, s2)
                       | (Inr c, s2) \<Rightarrow>
                           let s3 = updateDoc bookingId
                                      (\<lambda>d. d\<lparr>inlet := Some (inletOf e c)\<rparr>) s2
                           in (case queueUpdateEmail e after c s3 of
                                 Inl m \<Rightarrow> (Inl m, s3)
                               | Inr s4 \<Rightarrow> (Inr (Success None), s4)))))"

definition onBookingUpdated ::
  "env \<Rightarrow> string \<Rightarrow> booking \<Rightarrow> booking \<Rightarrow> state \<Rightarrow> (string + result) \<times> state" where
  "onBookingUpdated e bookingId before after s =
     (if status after = Some ''cancelled'' \<and> status before \<noteq> Some ''cancelled'' then
        handleBookingCancellation e bookingId before s
      else if date before \<noteq> date after \<or> time before \<noteq> time after then
        handleTimeChange e bookingId before after s
      else (Inr Null, s))"

definition onBookingDeleted :: "string \<Rightarrow> booking \<Rightarrow> state \<Rightarrow> result \<times> state" where
  "onBookingDeleted bookingId b s =
     (case heldCredential b of
        None \<Rightarrow> (Null, s)
      | Some cid \<Rightarrow> (Null, revokeInletCredential cid s))"

section \<open>The store's change triggers\<close>

text \<open>
  Firestore runs \<open>onCreate\<close>, \<open>onUpdate\<close> and \<open>onDelete\<close> after the write they react to.
  An event is such a write together with the run of its trigger to completion:
  \<^item> \<open>Created e i b\<close>: a document \<open>b\<close> is added under the fresh id \<open>i\<close>;
  \<^item> \<open>Updated e i a\<close>: the document \<open>i\<close> now reads \<open>a\<close>, the trigger sees the former
    data as \<open>before\<close>;
  \<^item> \<open>Deleted i\<close>: the document \<open>i\<close> is removed, the trigger sees its last data.
  A trigger that throws leaves the state it had reached.
\<close>

datatype event =
    Created env string booking
  | Updated env string booking
  | Deleted string

fun step :: "event \<Rightarrow> state \<Rightarrow> state" where
  "step (Created e i b) s =
     (if i \<in> fst ` set (bookings s) then s
      else snd (onBookingCreated e i b (s\<lparr>bookings := bookings s @ [(i, b)]\<rparr>)))"
| "step (Updated e i a) s =
     (case map_of (bookings s) i of
        None \<Rightarrow> s
      | Some b \<Rightarrow> snd (onBookingUpdated e i b a (updateDoc i (\<lambda>_. a) s)))"
| "step (Deleted i) s =
     (case map_of (bookings s) i of
        None \<Rightarrow> s
      | Some b \<Rightarrow>
          snd (onBookingDeleted i b (s\<lparr>bookings := filter (\<lambda>(j, d). j \<noteq> i) (bookings s)\<rparr>)))"

definition run :: "event list \<Rightarrow> state \<Rightarrow> state" where
  "run evs s = fold step evs s"

definition initial :: state where
  "initial = \<lparr>bookings = [], mail = [], gateway = []\<rparr>"

section \<open>State predicates\<close>

definition active :: "booking \<Rightarrow> bool" where
  "active b = (status b = Some ''confirmed'' \<or> status b = Some ''pending'')"

text \<open>
  No two documents with a status in \<open>{pending, confirmed}\<close> on one
  \<open>(resourceId, date, time)\<close>; an absent \<open>resourceId\<close> is the one known resource, as in
  the triggers.
\<close>

definition noDoubleBooking :: "state \<Rightarrow> bool" where
  "noDoubleBooking s =
     (\<forall>(i, b) \<in> set (bookings s). \<forall>(j, c) \<in> set (bookings s).
        i \<noteq> j \<and> active b \<and>
        js_or_default (resourceId b) ''prayer_room'' = js_or_default (resourceId c) ''prayer_room'' \<and>
        date b = date c \<and> time b = time c \<longrightarrow> \<not> active c)"

text \<open>The credential sub-record is there exactly on the confirmed bookings.\<close>

definition credentialIffConfirmed :: "state \<Rightarrow> bool" where
  "credentialIffConfirmed s =
     (\<forall>(i, b) \<in> set (bookings s). (inlet b \<noteq> None) = (status b = Some ''confirmed''))"

text \<open>The revoke requests a booking's end calls for: one for a held credential, else none.\<close>

definition revocationOf :: "booking \<Rightarrow> gateway_call list" where
  "revocationOf b = (case heldCredential b of None \<Rightarrow> [] | Some cid \<Rightarrow> [RevokeCredential cid])"

text \<open>
  A reschedule has replaced the credential \<open>oldId\<close> of the booking between the states
  \<open>s\<close> and \<open>s'\<close>: the gateway saw one revoke, for \<open>oldId\<close>, and one create; one mail was
  enqueued; the record holds a credential with another id.
\<close>

fun isCreate :: "gateway_call \<Rightarrow> bool" where
  "isCreate (CreateCredential l st en u m) = True"
| "isCreate (RevokeCredential c) = False"

definition credentialReplaced :: "string \<Rightarrow> string \<Rightarrow> state \<Rightarrow> state \<Rightarrow> bool" where
  "credentialReplaced bookingId oldId s s' =
     (let calls = drop (length (gateway s)) (gateway s')
      in filter (\<lambda>c. \<not> isCreate c) calls = [RevokeCredential oldId] \<and>
         length (filter isCreate calls) = 1 \<and>
         length (mail s') = length (mail s) + 1 \<and>
         (case map_of (bookings s') bookingId of
            None \<Rightarrow> False
          | Some d \<Rightarrow> heldCredential d \<noteq> None \<and> heldCredential d \<noteq> Some oldId))"

section \<open>The booking page\<close>

text \<open>The \<open>templateParams\<close> object \<open>sendConfirmationEmail\<close> passes to \<open>emailjs.send\<close>.\<close>

record email_request =
  to_name :: "string option"
  to_email :: "string option"
  access_code :: "string option"
  booking_date :: string
  booking_time :: string
  reply_to :: string

text \<open>
  The page keeps \<open>bookedSlots\<close> (its copy of the collection, or the local bookings in
  fallback mode), \<open>myBookings\<close> and \<open>selectedSlot\<close>; \<open>firebaseReady\<close> stands for
  \<open>window.firebaseReady && window.firebaseDB\<close>. \<open>emailjsRequests\<close> collects what the
  page has passed to \<open>emailjs.send\<close>, a request to the EmailJS service.
\<close>

record my_booking =
  myId :: string
  myDate :: string
  myTime :: string
  myName :: "string option"
  myIsClass :: bool

record page =
  bookedSlots :: "(string \<times> booking) list"
  myBookings :: "my_booking list"
  selectedSlot :: "(string \<times> string) option"
  firebaseReady :: bool
  emailjsRequests :: "email_request list"

text \<open>
  The values of the form's inputs; \<open>maxParticipantsInput\<close> is the result of \<open>parseInt\<close> on
  the input's text, \<open>None\<close> for NaN.
\<close>

record form =
  isClassBooking :: bool
  bookingName :: string
  bookingEmail :: string
  bookingPhone :: string
  classNameInput :: string
  hostNameInput :: string
  maxParticipantsInput :: "int option"

text \<open>
  What one submission reads from the browser: the draw of \<open>generateAccessCode\<close>, the
  id \<open>addDoc\<close> assigns (\<open>None\<close> when the save is rejected), the result of
  \<open>generateBookingId\<close>, \<open>new Date().toISOString()\<close>, whether the EmailJS SDK is loaded
  and whether its \<open>send\<close> resolves, \<open>parseInt\<close> (\<open>None\<close> for NaN),
  \<open>new Date(s).toLocaleDateString\<close> for \<open>en-GB\<close> with the options of the source, and the
  message of a rejected \<open>updateDoc\<close>.
\<close>

record browser =
  generatedCode :: nat
  addDocResult :: "string option"
  generatedId :: string
  nowISO :: string
  emailjsLoaded :: bool
  emailjsResolves :: bool
  parseInt :: "string \<Rightarrow> int option"
  dateToLocale :: "string \<Rightarrow> string"
  updateDocError :: string

record confirmation =
  successTitle :: string
  successMessage :: string
  shownAccessCode :: string
  shownEmailSent :: bool

datatype view =
    Ignored
  | Alert string
  | Shown confirmation

definition generateAccessCode :: "browser \<Rightarrow> string" where
  "generateAccessCode br = string_of_nat (generatedCode br)"

definition emptyBooking :: "string \<Rightarrow> string \<Rightarrow> booking" where
  "emptyBooking d t =
     \<lparr>date = d, time = t, status = None, resourceId = None, name = None, email = None,
      phone = None, isClass = None, className = None, hostName = None, hostEmail = None,
      maxParticipants = None, participants = None, participantCount = None, inlet = None,
      error = None, accessCode = None, createdAt = None\<rparr>"

text \<open>
  The first half of \<open>handleBookingSubmit\<close>: the object for Firestore and the full object
  for local use, or the alert shown for a missing required field.
\<close>

definition handleBookingSubmit_objects ::
  "browser \<Rightarrow> form \<Rightarrow> string \<Rightarrow> string \<Rightarrow> string + (booking \<times> booking)" where
  "handleBookingSubmit_objects br f d t =
     (let accessCode = generateAccessCode br in
      if isClassBooking f then
        let maxP = (case maxParticipantsInput f of
                      None \<Rightarrow> 8
                    | Some n \<Rightarrow> if n = 0 then 8 else n)
        in if classNameInput f = [] \<or> hostNameInput f = [] then
             Inl ''Please fill in all required fields''
           else
             let firestoreBooking =
                   (emptyBooking d t)
                     \<lparr>isClass := Some True,
                      className := Some (classNameInput f),
                      hostName := Some (hostNameInput f),
                      hostEmail := Some (bookingEmail f),
                      maxParticipants := Some maxP,
                      participants := Some [hostNameInput f],
                      participantCount := Some 1\<rparr>
             in Inr (firestoreBooking,
                     firestoreBooking
                       \<lparr>phone := Some (bookingPhone f),
                        accessCode := Some accessCode,
                        createdAt := Some (nowISO br)\<rparr>)
      else if bookingName f = [] then Inl ''Please enter your name''
      else
        Inr ((emptyBooking d t)\<lparr>name := Some (bookingName f), isClass := Some False\<rparr>,
             (emptyBooking d t)
               \<lparr>name := Some (bookingName f),
                isClass := Some False,
                email := Some (bookingEmail f),
                phone := Some (bookingPhone f),
                accessCode := Some accessCode,
                createdAt := Some (nowISO br)\<rparr>))"

definition myBookingOf :: "string \<Rightarrow> booking \<Rightarrow> bool \<Rightarrow> my_booking" where
  "myBookingOf i newBooking isClassB =
     \<lparr>myId = i, myDate = date newBooking, myTime = time newBooking,
      myName = (if isClassB then className newBooking else name newBooking),
      myIsClass = isClassB\<rparr>"

text \<open>\<open>Number.prototype.toString\<close> on an integer.\<close>

definition string_of_int :: "int \<Rightarrow> string" where
  "string_of_int i = (if i < 0 then ''-'' @ string_of_nat (nat (- i)) else string_of_nat (nat i))"

text \<open>
  \<open>formatTimeDisplay\<close>: the hour is \<open>parseInt\<close> of the text before the first colon; with
  NaN every comparison is false and the number prints as \<open>NaN\<close>.
\<close>

definition formatTimeDisplay :: "browser \<Rightarrow> string \<Rightarrow> string" where
  "formatTimeDisplay br timeStr =
     (case parseInt br (takeWhile (\<lambda>c. c \<noteq> CHR '':'') timeStr) of
        None \<Rightarrow> ''NaN:00 AM - NaN:00 AM''
      | Some hour \<Rightarrow>
          let displayHour = (if hour > 12 then hour - 12 else hour);
              ampm = (if hour \<ge> 12 then ''PM'' else ''AM'');
              endHour = (if hour + 1 > 12 then hour + 1 - 12 else hour + 1);
              endAmpm = (if hour + 1 \<ge> 12 then ''PM'' else ''AM'')
          in string_of_int displayHour @ '':00 '' @ ampm @ '' - '' @
             string_of_int endHour @ '':00 '' @ endAmpm)"

text \<open>
  \<open>sendConfirmationEmail\<close>: without the SDK nothing is sent; otherwise the request goes
  out and the result tells whether \<open>send\<close> resolved.
\<close>

definition sendConfirmationEmail :: "browser \<Rightarrow> booking \<Rightarrow> page \<Rightarrow> bool \<times> page" where
  "sendConfirmationEmail br b p =
     (if \<not> emailjsLoaded br then (False, p)
      else
        (emailjsResolves br,
         p\<lparr>emailjsRequests := emailjsRequests p @
             [\<lparr>to_name = name b,
               to_email = email b,
               access_code = accessCode b,
               booking_date = dateToLocale br (date b),
               booking_time = formatTimeDisplay br (time b),
               reply_to = ''thomas.hart@stmarkscoventry.org''\<rparr>]\<rparr>))"

text \<open>The two fallback branches of the source run the same statements.\<close>

definition saveLocally :: "browser \<Rightarrow> booking \<Rightarrow> bool \<Rightarrow> page \<Rightarrow> page" where
  "saveLocally br newBooking isClassB p =
     p\<lparr>bookedSlots := bookedSlots p @ [(generatedId br, newBooking)],
       myBookings := myBookings p @ [myBookingOf (generatedId br) newBooking isClassB]\<rparr>"

definition handleBookingSubmit ::
  "browser \<Rightarrow> form \<Rightarrow> page \<Rightarrow> state \<Rightarrow> view \<times> page \<times> state" where
  "handleBookingSubmit br f p s =
     (case selectedSlot p of
        None \<Rightarrow> (Ignored, p, s)
      | Some (d, t) \<Rightarrow>
          (case handleBookingSubmit_objects br f d t of
             Inl msg \<Rightarrow> (Alert msg, p, s)
           | Inr (firestoreBooking, newBooking) \<Rightarrow>
               let (p1, s1) =
                     (if firebaseReady p then
                        (case addDocResult br of
                           Some firestoreId \<Rightarrow>
                             (p\<lparr>myBookings := myBookings p @
                                   [myBookingOf firestoreId newBooking (isClassBooking f)]\<rparr>,
                              s\<lparr>bookings := bookings s @ [(firestoreId, firestoreBooking)]\<rparr>)
                         | None \<Rightarrow> (saveLocally br newBooking (isClassBooking f) p, s))
                      else (saveLocally br newBooking (isClassBooking f) p, s));
                   (emailSent, p2) = sendConfirmationEmail br newBooking p1
               in (Shown
                     \<lparr>successTitle =
                        (if isClassBooking f then ''Class Created!'' else ''Booking Confirmed!''),
                      successMessage =
                        (if isClassBooking f then
                           ''Your class '' @ [CHR 0x22] @ js_show (className newBooking) @
                           [CHR 0x22] @ '' has been created. Others can now join!''
                         else ''Thank you, '' @ js_show (name newBooking) @ ''!''),
                      shownAccessCode = generateAccessCode br,
                      shownEmailSent = emailSent\<rparr>,
                   p2, s1)))"

datatype join_view =
    NotJoined
  | Joined
  | JoinError string

text \<open>
  \<open>a >= b\<close> on numbers that may be absent: a comparison with \<open>undefined\<close> is false.
\<close>

definition js_ge :: "int option \<Rightarrow> int option \<Rightarrow> bool" where
  "js_ge a b = (case (a, b) of (Some x, Some y) \<Rightarrow> x \<ge> y | _ \<Rightarrow> False)"

definition handleJoinClass ::
  "browser \<Rightarrow> string \<Rightarrow> string \<Rightarrow> page \<Rightarrow> state \<Rightarrow> join_view \<times> state" where
  "handleJoinClass br joinName bookingId p s =
     (if joinName = [] \<or> bookingId = [] then (NotJoined, s)
      else if \<not> firebaseReady p then (NotJoined, s)
      else
        (case find (\<lambda>(i, b). i = bookingId) (bookedSlots p) of
           None \<Rightarrow> (JoinError ''Booking not found'', s)
         | Some (i, b) \<Rightarrow>
             if isClass b \<noteq> Some True then (JoinError ''Booking not found'', s)
             else if js_ge (participantCount b) (maxParticipants b) then
               (JoinError ''Class is full'', s)
             else
               let updatedParticipants =
                     (case participants b of None \<Rightarrow> [] | Some ps \<Rightarrow> ps) @ [joinName];
                   updatedCount = int (length updatedParticipants)
               in if bookingId \<in> fst ` set (bookings s) then
                    (Joined,
                     updateDoc bookingId
                       (\<lambda>d. d\<lparr>participants := Some updatedParticipants,
                               participantCount := Some updatedCount\<rparr>) s)
                  else (JoinError (updateDocError br), s)))"

text \<open>
  Every stored document is \<open>pending\<close>, for the create trigger to process, or already
  \<open>confirmed\<close>.
\<close>

definition storedPendingOrConfirmed :: "state \<Rightarrow> bool" where
  "storedPendingOrConfirmed s =
     (\<forall>(i, b) \<in> set (bookings s). status b = Some ''pending'' \<or> status b = Some ''confirmed'')"

text \<open>The record under the given id carries a credential, and with it a credential code.\<close>

definition credentialWritten :: "string \<Rightarrow> state \<Rightarrow> bool" where
  "credentialWritten i s = (case map_of (bookings s) i of None \<Rightarrow> False | Some d \<Rightarrow> inlet d \<noteq> None)"


section \<open>Example data\<close>

text \<open>Concrete inputs at which the properties below are instantiated.\<close>


definition exEnv :: env where
  "exEnv =
     \<lparr>localDate =
        (\<lambda>d t. if d = ''2026-01-16'' \<and> t = ''14:00'' then Some 1768572000000
               else if d = ''2026-01-16'' \<and> t = ''15:00'' then Some 1768575600000
               else None),
      dateNow = 7, randomCode = 4321, serverTimestamp = 0,
      localeDate = (\<lambda>_. ''Friday 16 January 2026''),
      localeTime = (\<lambda>d. if d = Some 1768572000000 then ''14:00'' else ''15:00''),
      rejectUndefined = (\<lambda>f. ''Cannot use undefined as a Firestore value (found in field '' @ f @ '')'')\<rparr>"

definition exAlice :: booking where
  "exAlice = (emptyBooking ''2026-01-16'' ''14:00'')
               \<lparr>status := Some ''pending'', name := Some ''Alice'', email := Some ''a@x.com''\<rparr>"

definition exBob :: booking where
  "exBob = (emptyBooking ''2026-01-16'' ''14:00'')
             \<lparr>status := Some ''pending'', name := Some ''Bob'', email := Some ''b@x.com''\<rparr>"

definition exAliceConfirmed :: booking where
  "exAliceConfirmed =
     exAlice\<lparr>status := Some ''confirmed'',
             inlet := Some \<lparr>credentialId = ''inlet_cred_7'', code = ''4321'', issuedAt = 0\<rparr>\<rparr>"

definition exOccupied :: state where
  "exOccupied = \<lparr>bookings = [(''A'', exAliceConfirmed), (''B'', exBob)], mail = [], gateway = []\<rparr>"

definition exChapel :: booking where
  "exChapel = exAlice\<lparr>resourceId := Some ''chapel''\<rparr>"

definition exChapelStore :: state where
  "exChapelStore = \<lparr>bookings = [(''C'', exChapel)], mail = [], gateway = []\<rparr>"

definition exAliceCancelledMoved :: booking where
  "exAliceCancelledMoved =
     exAliceConfirmed\<lparr>status := Some ''cancelled'', time := ''15:00''\<rparr>"

definition exCancelledStore :: state where
  "exCancelledStore =
     \<lparr>bookings = [(''A'', exAliceCancelledMoved)], mail = [], gateway = []\<rparr>"

definition exAliceToChapel :: booking where
  "exAliceToChapel = exAliceConfirmed\<lparr>time := ''15:00'', resourceId := Some ''chapel''\<rparr>"

definition exChapelMoveStore :: state where
  "exChapelMoveStore = \<lparr>bookings = [(''A'', exAliceToChapel)], mail = [], gateway = []\<rparr>"

definition exAliceMoved :: booking where
  "exAliceMoved = exAliceConfirmed\<lparr>time := ''15:00''\<rparr>"

definition exMovedStore :: state where
  "exMovedStore = \<lparr>bookings = [(''A'', exAliceMoved)], mail = [], gateway = []\<rparr>"

definition exCarol :: booking where
  "exCarol = (emptyBooking ''2026-01-16'' ''16:00'')\<lparr>name := Some ''Carol''\<rparr>"

definition exCarolMoved :: booking where
  "exCarolMoved = exCarol\<lparr>time := ''17:00''\<rparr>"

definition exCarolStore :: state where
  "exCarolStore = \<lparr>bookings = [(''D'', exCarolMoved)], mail = [], gateway = []\<rparr>"

definition exEnv2 :: env where
  "exEnv2 = exEnv\<lparr>dateNow := 8, randomCode := 5678\<rparr>"

definition exEnv3 :: env where
  "exEnv3 = exEnv\<lparr>dateNow := 9, randomCode := 9012\<rparr>"

definition exAliceCancelled :: booking where
  "exAliceCancelled = exAliceConfirmed\<lparr>status := Some ''cancelled''\<rparr>"

definition exBobLater :: booking where
  "exBobLater = exBob\<lparr>time := ''15:00''\<rparr>"

definition exBobLaterConfirmed :: booking where
  "exBobLaterConfirmed =
     exBobLater\<lparr>status := Some ''confirmed'',
                inlet := Some \<lparr>credentialId = ''inlet_cred_8'', code = ''5678'', issuedAt = 0\<rparr>\<rparr>"

definition exBobOntoAlice :: booking where
  "exBobOntoAlice = exBobLaterConfirmed\<lparr>time := ''14:00''\<rparr>"

definition exPendingStore :: state where
  "exPendingStore = \<lparr>bookings = [(''A'', exAlice)], mail = [], gateway = []\<rparr>"

definition exCancelStore :: state where
  "exCancelStore = \<lparr>bookings = [(''A'', exAliceCancelled)], mail = [], gateway = []\<rparr>"

definition exBrowser :: browser where
  "exBrowser =
     \<lparr>generatedCode = 2468, addDocResult = Some ''F1'', generatedId = ''local1'',
      nowISO = ''2026-01-10T09:00:00.000Z'', emailjsLoaded = True, emailjsResolves = True,
      parseInt = (\<lambda>t. if t = ''14'' then Some 14 else None),
      dateToLocale = (\<lambda>_. ''Friday 16 January 2026''),
      updateDocError = ''No document to update''\<rparr>"

definition exForm :: form where
  "exForm =
     \<lparr>isClassBooking = False, bookingName = ''Alice'', bookingEmail = ''a@x.com'',
      bookingPhone = ''07000'', classNameInput = [], hostNameInput = [],
      maxParticipantsInput = None\<rparr>"

definition exClassForm :: form where
  "exClassForm =
     \<lparr>isClassBooking = True, bookingName = [], bookingEmail = ''h@x.com'',
      bookingPhone = [], classNameInput = ''Vespers'', hostNameInput = ''Hannah'',
      maxParticipantsInput = Some 2\<rparr>"

definition exPage :: page where
  "exPage =
     \<lparr>bookedSlots = [], myBookings = [], selectedSlot = Some (''2026-01-16'', ''14:00''),
      firebaseReady = True, emailjsRequests = []\<rparr>"

definition exClass :: booking where
  "exClass =
     (emptyBooking ''2026-01-16'' ''14:00'')
       \<lparr>isClass := Some True, className := Some ''Vespers'', hostName := Some ''Hannah'',
        hostEmail := Some ''h@x.com'', maxParticipants := Some 2,
        participants := Some [''Hannah''], participantCount := Some 1\<rparr>"

definition exClassFull :: booking where
  "exClassFull =
     exClass\<lparr>participants := Some [''Hannah'', ''Ian''], participantCount := Some 2\<rparr>"

definition exClassStore :: state where
  "exClassStore = \<lparr>bookings = [(''F1'', exClass)], mail = [], gateway = []\<rparr>"

definition exClassPage :: page where
  "exClassPage =
     \<lparr>bookedSlots = [(''F1'', exClass)], myBookings = [], selectedSlot = None,
      firebaseReady = True, emailjsRequests = []\<rparr>"

definition exFullStore :: state where
  "exFullStore = \<lparr>bookings = [(''F1'', exClassFull)], mail = [], gateway = []\<rparr>"

definition exWalkIn :: booking where
  "exWalkIn =
     (emptyBooking ''2026-01-16'' ''14:00'')\<lparr>status := Some ''pending'', name := Some ''Dana''\<rparr>"

definition exWalkInStore :: state where
  "exWalkInStore = \<lparr>bookings = [(''W'', exWalkIn)], mail = [], gateway = []\<rparr>"

definition exFormDoc :: booking where
  "exFormDoc =
     (emptyBooking ''2026-01-16'' ''14:00'')\<lparr>name := Some ''Alice'', isClass := Some False\<rparr>"

definition exFormDocCancelled :: booking where
  "exFormDocCancelled = exFormDoc\<lparr>status := Some ''cancelled''\<rparr>"

definition exWalkInHeld :: booking where
  "exWalkInHeld =
     exWalkIn\<lparr>status := Some ''confirmed'',
              inlet := Some \<lparr>credentialId = ''inlet_cred_7'', code = ''4321'', issuedAt = 0\<rparr>\<rparr>"

definition exWalkInCancelled :: booking where
  "exWalkInCancelled = exWalkInHeld\<lparr>status := Some ''cancelled''\<rparr>"

definition exFormStore :: state where
  "exFormStore = \<lparr>bookings = [(''F1'', exFormDocCancelled)], mail = [], gateway = []\<rparr>"

definition exWalkInCancelStore :: state where
  "exWalkInCancelStore = \<lparr>bookings = [(''W'', exWalkInCancelled)], mail = [], gateway = []\<rparr>"

section \<open>Properties\<close>

subsection \<open>Helper lemmas\<close>

lemma noOtherDoc_iff: "noOtherDoc docs ex = (\<forall>p \<in> set docs. fst p = ex)"
  by (induction docs ex rule: noOtherDoc.induct) auto

lemma validateSlotFree_False:
  "(j, c) \<in> set (bookings s) \<Longrightarrow> j \<noteq> i \<Longrightarrow> active c \<Longrightarrow>
   \<not> validateSlotFree s (date c) (time c) i"
  by (auto simp: validateSlotFree_def slotQuery_def noOtherDoc_iff active_def)

lemma map_of_updated:
  "map_of (map (\<lambda>(j, b). if j = i then (j, f b) else (j, b)) xs) k =
   (if k = i then map_option f (map_of xs i) else map_of xs k)"
  by (induction xs) auto

lemma map_of_updateDoc:
  "map_of (bookings (updateDoc i f s)) k =
   (if k = i then map_option f (map_of (bookings s) i) else map_of (bookings s) k)"
  by (simp add: updateDoc_def map_of_updated)

lemma updateDoc_other [simp]:
  "gateway (updateDoc i f s) = gateway s" "mail (updateDoc i f s) = mail s"
  by (simp_all add: updateDoc_def)

lemma createInletCredential_Inl:
  "createInletCredential e rid st en u m s = (Inl msg, s1) \<Longrightarrow> s1 = s"
  by (auto simp: createInletCredential_def split: option.splits)

lemma createInletCredential_Inr:
  "createInletCredential e rid st en u m s = (Inr c, s1) \<Longrightarrow>
   bookings s1 = bookings s \<and> mail s1 = mail s \<and>
   credId c = ''inlet_cred_'' @ string_of_nat (dateNow e) \<and>
   credAccessCode c = string_of_nat (randomCode e)"
  by (auto simp: createInletCredential_def split: option.splits)

text \<open>
  A throw inside the \<open>try\<close> block of \<open>onBookingCreated\<close> leaves the mail queue as it was
  and the record in place: either nothing was written, or the record was confirmed and
  the mail was refused.
\<close>

lemma onBookingCreated_try_Inl:
  assumes "onBookingCreated_try e i b s = (Inl m, s1)"
  shows "mail s1 = mail s"
    and "(map_of (bookings s1) i = None) = (map_of (bookings s) i = None)"
proof -
  from assms have
    "s1 = s \<or>
     (\<exists>c s0. bookings s0 = bookings s \<and> mail s0 = mail s \<and>
        s1 = updateDoc i (\<lambda>d. d\<lparr>status := Some ''confirmed'', inlet := Some (inletOf e c)\<rparr>) s0)"
    by (auto simp: onBookingCreated_try_def Let_def split: if_splits sum.splits prod.splits
        dest: createInletCredential_Inl createInletCredential_Inr)
  then show "mail s1 = mail s"
    and "(map_of (bookings s1) i = None) = (map_of (bookings s) i = None)"
    by (auto simp: map_of_updateDoc)
qed

subsection \<open>Availability check\<close>

text \<open>
  C8. \<open>validateSlotFree\<close> queries the bookings with the given date and time and a status
  of \<open>confirmed\<close> or \<open>pending\<close>, and answers false exactly when one of them has an id
  other than \<open>excludeBookingId\<close>.
\<close>

theorem validateSlotFree_iff:
  "(\<not> validateSlotFree s d t excludeBookingId) =
   (\<exists>i b. (i, b) \<in> set (bookings s) \<and> date b = d \<and> time b = t \<and>
          (status b = Some ''confirmed'' \<or> status b = Some ''pending'') \<and>
          i \<noteq> excludeBookingId)"
  by (auto simp: validateSlotFree_def slotQuery_def noOtherDoc_iff)

subsection \<open>The create trigger\<close>

text \<open>
  C5. A pending booking created on a date and time that another booking with status
  \<open>confirmed\<close> or \<open>pending\<close> holds is set to \<open>conflict\<close> with the error
  \<open>Time slot is no longer available\<close>, and the trigger stops: it returns \<open>null\<close>, the
  gateway log and the mail queue are as before.
\<close>

theorem onBookingCreated_conflict:
  assumes "status b = Some ''pending''"
    and "(j, c) \<in> set (bookings s)" and "j \<noteq> bookingId"
    and "date c = date b" and "time c = time b" and "active c"
  shows "onBookingCreated e bookingId b s =
           (Null, updateDoc bookingId
                    (\<lambda>d. d\<lparr>status := Some ''conflict'',
                            error := Some ''Time slot is no longer available''\<rparr>) s)
       \<and> gateway (snd (onBookingCreated e bookingId b s)) = gateway s
       \<and> mail (snd (onBookingCreated e bookingId b s)) = mail s
       \<and> map_of (bookings (snd (onBookingCreated e bookingId b s))) bookingId =
           map_option (\<lambda>d. d\<lparr>status := Some ''conflict'',
                              error := Some ''Time slot is no longer available''\<rparr>)
             (map_of (bookings s) bookingId)"
proof -
  have "\<not> validateSlotFree s (date b) (time b) bookingId"
    using validateSlotFree_False [OF assms(2,3,6)] assms(4,5) by simp
  then have eq: "onBookingCreated e bookingId b s =
           (Null, updateDoc bookingId
                    (\<lambda>d. d\<lparr>status := Some ''conflict'',
                            error := Some ''Time slot is no longer available''\<rparr>) s)"
    using assms(1) by (simp add: onBookingCreated_def onBookingCreated_try_def)
  show ?thesis
    unfolding eq by (simp add: map_of_updateDoc)
qed

theorem onBookingCreated_conflict_witness:
  "onBookingCreated exEnv ''B'' exBob exOccupied =
     (Null, \<lparr>bookings = [(''A'', exAliceConfirmed),
                         (''B'', exBob\<lparr>status := Some ''conflict'',
                                       error := Some ''Time slot is no longer available''\<rparr>)],
             mail = [], gateway = []\<rparr>)"
  using onBookingCreated_conflict [of exBob "''A''" exAliceConfirmed exOccupied "''B''" exEnv]
  by (simp add: exOccupied_def exBob_def exAliceConfirmed_def exAlice_def emptyBooking_def
      active_def updateDoc_def)

text \<open>
  C4. When the \<open>try\<close> block of \<open>onBookingCreated\<close> throws on a pending booking, whatever
  the statement that throws (\<open>toISOString\<close>, \<open>createInletCredential\<close>, or the enqueue of
  the confirmation mail after the record was confirmed), the trigger returns the
  failure, the record ends with status \<open>error\<close> and the thrown message in \<open>error\<close> (so it
  is not \<open>pending\<close>), and the mail queue is as before.
\<close>

theorem onBookingCreated_error_containment:
  assumes "status b = Some ''pending''"
    and "onBookingCreated_try e bookingId b s = (Inl m, s1)"
  shows "fst (onBookingCreated e bookingId b s) = Failure m
       \<and> (\<forall>d. map_of (bookings (snd (onBookingCreated e bookingId b s))) bookingId = Some d
              \<longrightarrow> status d = Some ''error'' \<and> error d = Some m \<and> status d \<noteq> Some ''pending'')
       \<and> (map_of (bookings s) bookingId \<noteq> None
              \<longrightarrow> map_of (bookings (snd (onBookingCreated e bookingId b s))) bookingId \<noteq> None)
       \<and> mail (snd (onBookingCreated e bookingId b s)) = mail s"
proof -
  have eq: "onBookingCreated e bookingId b s =
          (Failure m, updateDoc bookingId (\<lambda>d. d\<lparr>status := Some ''error'', error := Some m\<rparr>) s1)"
    using assms by (simp add: onBookingCreated_def)
  show ?thesis
    unfolding eq using onBookingCreated_try_Inl [OF assms(2)]
    by (auto simp: map_of_updateDoc)
qed

lemma exChapel_throws:
  "onBookingCreated_try exEnv ''C'' exChapel exChapelStore =
     (Inl ''No INLET lock mapping for resource: chapel'', exChapelStore)"
  by (simp add: onBookingCreated_try_def exChapelStore_def exChapel_def exAlice_def
      emptyBooking_def exEnv_def validateSlotFree_def slotQuery_def parseBookingDateTime_def
      plusHour_def newDate_def toISOString_def createInletCredential_def RESOURCE_MAPPING_def
      objectPrototypeKeys_def js_or_default_def js_or_def)

lemma exWalkIn_throws:
  "onBookingCreated_try exEnv ''W'' exWalkIn exWalkInStore =
     (Inl ''Cannot use undefined as a Firestore value (found in field to)'',
      \<lparr>bookings = [(''W'', exWalkInHeld)], mail = [],
       gateway = [CreateCredential ''YOUR_INLET_LOCK_ID'' 1768572000000 1768575600000
                    (Some ''Dana'') None]\<rparr>)"
  by (simp add: onBookingCreated_try_def exWalkInStore_def exWalkIn_def exWalkInHeld_def
      emptyBooking_def exEnv_def validateSlotFree_def slotQuery_def parseBookingDateTime_def
      plusHour_def newDate_def toISOString_def createInletCredential_def RESOURCE_MAPPING_def
      js_or_default_def js_or_def updateDoc_def inletOf_def queueConfirmationEmail_def
      addMail_def string_of_nat.simps Let_def)

theorem onBookingCreated_error_containment_witness:
  "onBookingCreated exEnv ''C'' exChapel exChapelStore =
     (Failure ''No INLET lock mapping for resource: chapel'',
      \<lparr>bookings = [(''C'', exChapel\<lparr>status := Some ''error'',
                       error := Some ''No INLET lock mapping for resource: chapel''\<rparr>)],
       mail = [], gateway = []\<rparr>)
   \<and> onBookingCreated exEnv ''W'' exWalkIn exWalkInStore =
     (Failure ''Cannot use undefined as a Firestore value (found in field to)'',
      \<lparr>bookings =
         [(''W'', exWalkInHeld
                   \<lparr>status := Some ''error'',
                    error := Some ''Cannot use undefined as a Firestore value (found in field to)''\<rparr>)],
       mail = [],
       gateway = [CreateCredential ''YOUR_INLET_LOCK_ID'' 1768572000000 1768575600000
                    (Some ''Dana'') None]\<rparr>)"
proof -
  have p: "status exChapel = Some ''pending''" "status exWalkIn = Some ''pending''"
    by (simp_all add: exChapel_def exAlice_def exWalkIn_def)
  from onBookingCreated_error_containment [OF p(1) exChapel_throws]
       onBookingCreated_error_containment [OF p(2) exWalkIn_throws]
       p exChapel_throws exWalkIn_throws
  show ?thesis
    by (simp add: onBookingCreated_def exChapelStore_def updateDoc_def)
qed

text \<open>What can throw in the \<open>try\<close> block, by the message thrown.\<close>

lemma onBookingCreated_try_throws:
  "onBookingCreated_try e i b s = (Inl m, s1) \<Longrightarrow>
     validateSlotFree s (date b) (time b) i \<and>
     (m = ''Invalid time value'' \<or>
      m = ''No INLET lock mapping for resource: '' @ js_or_default (resourceId b) ''prayer_room'' \<or>
      m = rejectUndefined e ''to'' \<or>
      m = rejectUndefined e ''template.data.userName'')"
  by (auto simp: onBookingCreated_try_def Let_def toISOString_def createInletCredential_def
      queueConfirmationEmail_def addMail_def
      split: if_splits sum.splits prod.splits option.splits)
subsection \<open>The update and delete triggers\<close>

text \<open>
  C7. The claim: every update that sets status to \<open>cancelled\<close> on a booking that was
  not cancelled revokes the credential if present and enqueues exactly one
  \<open>booking-cancellation\<close> mail. The code at two such updates: on the individual booking
  as the page writes it (a name, no address) and on a record that holds a credential and
  has no address, \<open>queueCancellationEmail\<close> passes \<open>to: undefined\<close> to \<open>add\<close>, which
  throws; the trigger ends with the exception, after the revoke when there is a
  credential, and the mail queue stays empty.
\<close>

theorem cancellation_without_address:
  "onBookingUpdated exEnv ''F1'' exFormDoc exFormDocCancelled exFormStore =
     (Inl ''Cannot use undefined as a Firestore value (found in field to)'', exFormStore)
   \<and> onBookingUpdated exEnv ''W'' exWalkInHeld exWalkInCancelled exWalkInCancelStore =
     (Inl ''Cannot use undefined as a Firestore value (found in field to)'',
      \<lparr>bookings = [(''W'', exWalkInCancelled)], mail = [],
       gateway = [RevokeCredential ''inlet_cred_7'']\<rparr>)"
  by (simp add: onBookingUpdated_def handleBookingCancellation_def queueCancellationEmail_def
      addMail_def heldCredential_def revokeInletCredential_def js_or_def exFormDoc_def
      exFormDocCancelled_def exFormStore_def exWalkInHeld_def exWalkInCancelled_def
      exWalkIn_def exWalkInCancelStore_def emptyBooking_def exEnv_def)

theorem cancellation_without_address_witness:
  "mail (snd (onBookingUpdated exEnv ''F1'' exFormDoc exFormDocCancelled exFormStore)) = []
   \<and> mail (snd (onBookingUpdated exEnv ''W'' exWalkInHeld exWalkInCancelled
                  exWalkInCancelStore)) = []
   \<and> gateway (snd (onBookingUpdated exEnv ''W'' exWalkInHeld exWalkInCancelled
                     exWalkInCancelStore)) = [RevokeCredential ''inlet_cred_7'']"
  using cancellation_without_address
  by (simp add: exFormStore_def)

text \<open>
  What the cancellation branch does on every such update: the gateway sees the revoke of
  the held credential and nothing else, the bookings are not written, and the branch is
  taken whether or not date or time change. With a recipient and a holder name in the
  former data it enqueues the one mail and succeeds.
\<close>

lemma onBookingUpdated_cancellation_gateway:
  assumes "status after = Some ''cancelled''" and "status before \<noteq> Some ''cancelled''"
  shows "gateway (snd (onBookingUpdated e bookingId before after s)) =
           gateway s @ revocationOf before"
    and "bookings (snd (onBookingUpdated e bookingId before after s)) = bookings s"
  using assms
  by (auto simp: onBookingUpdated_def handleBookingCancellation_def queueCancellationEmail_def
      addMail_def revokeInletCredential_def revocationOf_def Let_def
      split: option.splits sum.splits)

lemma onBookingUpdated_cancellation_addressed:
  assumes "status after = Some ''cancelled''" and "status before \<noteq> Some ''cancelled''"
    and "js_or (email before) (hostEmail before) = Some addr"
    and "js_or (name before) (hostName before) = Some holder"
  shows "onBookingUpdated e bookingId before after s =
           (Inr (Success None),
            s\<lparr>gateway := gateway s @ revocationOf before,
              mail := mail s @
                [\<lparr>mailTo = Some addr,
                  templateName = ''booking-cancellation'',
                  dataUserName = Some holder,
                  dataBookingDate = date before,
                  dataBookingTime = time before,
                  dataAccessCode = None,
                  dataBookingType = None\<rparr>]\<rparr>)"
  using assms
  by (simp add: onBookingUpdated_def handleBookingCancellation_def queueCancellationEmail_def
      addMail_def revokeInletCredential_def revocationOf_def split: option.splits)

text \<open>
  C6 as stated fails: a reschedule of a booking that holds a credential, to a resource
  without a lock, revokes the old credential and then throws in
  \<open>createInletCredential\<close>; no create request is made, the record keeps the revoked id
  and no mail is enqueued.
\<close>

theorem handleTimeChange_unmapped_counterexample:
  "onBookingUpdated exEnv ''A'' exAliceConfirmed exAliceToChapel exChapelMoveStore =
     (Inl ''No INLET lock mapping for resource: chapel'',
      \<lparr>bookings = [(''A'', exAliceToChapel)], mail = [],
       gateway = [RevokeCredential ''inlet_cred_7'']\<rparr>)
   \<and> \<not> credentialReplaced ''A'' ''inlet_cred_7'' exChapelMoveStore
        (snd (onBookingUpdated exEnv ''A'' exAliceConfirmed exAliceToChapel exChapelMoveStore))"
proof -
  have eq: "onBookingUpdated exEnv ''A'' exAliceConfirmed exAliceToChapel exChapelMoveStore =
     (Inl ''No INLET lock mapping for resource: chapel'',
      \<lparr>bookings = [(''A'', exAliceToChapel)], mail = [],
       gateway = [RevokeCredential ''inlet_cred_7'']\<rparr>)"
    by (simp add: onBookingUpdated_def handleTimeChange_def exAliceToChapel_def
        exAliceConfirmed_def exAlice_def emptyBooking_def exChapelMoveStore_def exEnv_def
        heldCredential_def revokeInletCredential_def parseBookingDateTime_def plusHour_def
        newDate_def toISOString_def createInletCredential_def RESOURCE_MAPPING_def
        objectPrototypeKeys_def js_or_default_def js_or_def)
  show ?thesis
    unfolding eq by (simp add: credentialReplaced_def exChapelMoveStore_def)
qed

text \<open>
  C6, amended. On an update that changes date or time and is not a cancellation: when
  the former data holds a credential, the new date and time give a valid start whose
  end, 60 minutes later, is a valid Date, the resource has a lock, and the new data names
  a recipient (\<open>email\<close> or \<open>hostEmail\<close>) and a holder (\<open>name\<close> or \<open>hostName\<close>), the
  trigger makes one revoke request for the old id, then one create request for the window
  from the new start to 60 minutes after it, writes the new credential under \<open>inlet\<close> in
  place of the old one, and enqueues one \<open>booking-update\<close> mail with the new code; when
  the former data holds no credential, it does nothing.
\<close>

theorem handleTimeChange_replaces:
  assumes "\<not> (status after = Some ''cancelled'' \<and> status before \<noteq> Some ''cancelled'')"
    and "date before \<noteq> date after \<or> time before \<noteq> time after"
  shows "(heldCredential before = None \<longrightarrow>
            onBookingUpdated e bookingId before after s = (Inr (Success None), s))
       \<and> (\<forall>cid st lock addr holder.
            heldCredential before = Some cid \<and>
            parseBookingDateTime e (date after) (time after) = Some st \<and>
            \<bar>st + 60 * 60 * 1000\<bar> \<le> 8640000000000000 \<and>
            RESOURCE_MAPPING (js_or_default (resourceId after) ''prayer_room'') = Some lock \<and>
            js_or (email after) (hostEmail after) = Some addr \<and>
            js_or (name after) (hostName after) = Some holder \<longrightarrow>
            onBookingUpdated e bookingId before after s =
              (Inr (Success None),
               (updateDoc bookingId
                  (\<lambda>d. d\<lparr>inlet := Some \<lparr>credentialId = ''inlet_cred_'' @ string_of_nat (dateNow e),
                                         code = string_of_nat (randomCode e),
                                         issuedAt = serverTimestamp e\<rparr>\<rparr>) s)
               \<lparr>gateway := gateway s @
                  [RevokeCredential cid,
                   CreateCredential lock st (st + 60 * 60 * 1000) (Some holder) (Some addr)],
                mail := mail s @
                  [\<lparr>mailTo = Some addr,
                    templateName = ''booking-update'',
                    dataUserName = Some holder,
                    dataBookingDate = localeDate e (Some st),
                    dataBookingTime = localeTime e (Some st),
                    dataAccessCode = Some (string_of_nat (randomCode e)),
                    dataBookingType = None\<rparr>]\<rparr>))"
proof -
  have route: "onBookingUpdated e bookingId before after s =
               handleTimeChange e bookingId before after s"
    using assms by (auto simp: onBookingUpdated_def)
  show ?thesis
    unfolding route
    by (auto simp: handleTimeChange_def Let_def plusHour_def newDate_def toISOString_def
        createInletCredential_def revokeInletCredential_def queueUpdateEmail_def addMail_def
        inletOf_def updateDoc_def)
qed

theorem handleTimeChange_replaces_witness:
  "onBookingUpdated exEnv2 ''A'' exAliceConfirmed exAliceMoved exMovedStore =
     (Inr (Success None),
      \<lparr>bookings =
         [(''A'', exAliceMoved\<lparr>inlet := Some \<lparr>credentialId = ''inlet_cred_8'', code = ''5678'',
                                             issuedAt = 0\<rparr>\<rparr>)],
       mail = [\<lparr>mailTo = Some ''a@x.com'', templateName = ''booking-update'',
                dataUserName = Some ''Alice'', dataBookingDate = ''Friday 16 January 2026'',
                dataBookingTime = ''15:00'', dataAccessCode = Some ''5678'',
                dataBookingType = None\<rparr>],
       gateway = [RevokeCredential ''inlet_cred_7'',
                  CreateCredential ''YOUR_INLET_LOCK_ID'' 1768575600000 1768579200000
                    (Some ''Alice'') (Some ''a@x.com'')]\<rparr>)
   \<and> credentialReplaced ''A'' ''inlet_cred_7'' exMovedStore
        (snd (onBookingUpdated exEnv2 ''A'' exAliceConfirmed exAliceMoved exMovedStore))
   \<and> onBookingUpdated exEnv ''D'' exCarol exCarolMoved exCarolStore =
       (Inr (Success None), exCarolStore)"
proof -
  have eq: "onBookingUpdated exEnv2 ''A'' exAliceConfirmed exAliceMoved exMovedStore =
     (Inr (Success None),
      \<lparr>bookings =
         [(''A'', exAliceMoved\<lparr>inlet := Some \<lparr>credentialId = ''inlet_cred_8'', code = ''5678'',
                                             issuedAt = 0\<rparr>\<rparr>)],
       mail = [\<lparr>mailTo = Some ''a@x.com'', templateName = ''booking-update'',
                dataUserName = Some ''Alice'', dataBookingDate = ''Friday 16 January 2026'',
                dataBookingTime = ''15:00'', dataAccessCode = Some ''5678'',
                dataBookingType = None\<rparr>],
       gateway = [RevokeCredential ''inlet_cred_7'',
                  CreateCredential ''YOUR_INLET_LOCK_ID'' 1768575600000 1768579200000
                    (Some ''Alice'') (Some ''a@x.com'')]\<rparr>)"
    using handleTimeChange_replaces [of exAliceMoved exAliceConfirmed exEnv2 "''A''" exMovedStore]
    by (simp add: exAliceMoved_def exAliceConfirmed_def exAlice_def emptyBooking_def
        exMovedStore_def exEnv_def exEnv2_def heldCredential_def parseBookingDateTime_def
        RESOURCE_MAPPING_def js_or_default_def js_or_def updateDoc_def string_of_nat.simps)
  have carol: "onBookingUpdated exEnv ''D'' exCarol exCarolMoved exCarolStore =
       (Inr (Success None), exCarolStore)"
    using handleTimeChange_replaces [of exCarolMoved exCarol exEnv "''D''" exCarolStore]
    by (simp add: exCarol_def exCarolMoved_def emptyBooking_def heldCredential_def)
  have "credentialReplaced ''A'' ''inlet_cred_7'' exMovedStore
        (snd (onBookingUpdated exEnv2 ''A'' exAliceConfirmed exAliceMoved exMovedStore))"
    unfolding eq
    by (simp add: credentialReplaced_def exMovedStore_def heldCredential_def exAliceMoved_def)
  with eq carol show ?thesis by simp
qed
subsection \<open>Credential lifecycle\<close>

lemma exAlice_created:
  "step (Created exEnv ''A'' exAlice) initial =
     \<lparr>bookings = [(''A'', exAliceConfirmed)],
      mail = [\<lparr>mailTo = Some ''a@x.com'', templateName = ''booking-confirmation'',
               dataUserName = Some ''Alice'', dataBookingDate = ''Friday 16 January 2026'',
               dataBookingTime = ''14:00'', dataAccessCode = Some ''4321'',
               dataBookingType = Some ''Individual Booking''\<rparr>],
      gateway = [CreateCredential ''YOUR_INLET_LOCK_ID'' 1768572000000 1768575600000
                   (Some ''Alice'') (Some ''a@x.com'')]\<rparr>"
  by (simp add: initial_def onBookingCreated_def onBookingCreated_try_def exAlice_def
      exAliceConfirmed_def emptyBooking_def exEnv_def validateSlotFree_def slotQuery_def
      parseBookingDateTime_def plusHour_def newDate_def toISOString_def
      createInletCredential_def RESOURCE_MAPPING_def js_or_default_def js_or_def
      updateDoc_def inletOf_def queueConfirmationEmail_def addMail_def string_of_nat.simps
      Let_def)

lemma exAlice_cancelled:
  "run [Created exEnv ''A'' exAlice, Updated exEnv ''A'' exAliceCancelled] initial =
     \<lparr>bookings = [(''A'', exAliceCancelled)],
      mail = [\<lparr>mailTo = Some ''a@x.com'', templateName = ''booking-confirmation'',
               dataUserName = Some ''Alice'', dataBookingDate = ''Friday 16 January 2026'',
               dataBookingTime = ''14:00'', dataAccessCode = Some ''4321'',
               dataBookingType = Some ''Individual Booking''\<rparr>,
              \<lparr>mailTo = Some ''a@x.com'', templateName = ''booking-cancellation'',
               dataUserName = Some ''Alice'', dataBookingDate = ''2026-01-16'',
               dataBookingTime = ''14:00'', dataAccessCode = None, dataBookingType = None\<rparr>],
      gateway = [CreateCredential ''YOUR_INLET_LOCK_ID'' 1768572000000 1768575600000
                   (Some ''Alice'') (Some ''a@x.com''),
                 RevokeCredential ''inlet_cred_7'']\<rparr>"
  unfolding run_def fold_simps exAlice_created
  by (simp add: onBookingUpdated_def handleBookingCancellation_def heldCredential_def
      revokeInletCredential_def queueCancellationEmail_def addMail_def updateDoc_def
      exAliceCancelled_def exAliceConfirmed_def exAlice_def emptyBooking_def js_or_def)

text \<open>
  C2 as stated fails: after a confirmed booking is cancelled, its credential has been
  revoked but the record still carries the \<open>inlet\<close> sub-record; no trigger clears it.
\<close>

theorem cancelled_keeps_inlet_counterexample:
  "\<not> credentialIffConfirmed
       (run [Created exEnv ''A'' exAlice, Updated exEnv ''A'' exAliceCancelled] initial)"
  unfolding exAlice_cancelled
  by (simp add: credentialIffConfirmed_def exAliceCancelled_def exAliceConfirmed_def)

text \<open>
  The record \<open>onBookingCreated\<close> leaves for a pending booking: confirmed with a
  credential; in conflict or in error with the credential field untouched; or, when the
  confirmation mail was refused for want of a recipient or a holder name, in error with
  the credential just written.
\<close>

lemma onBookingCreated_doc:
  assumes "status b = Some ''pending''" and "map_of (bookings s) i = Some d"
  shows "\<exists>d'. map_of (bookings (snd (onBookingCreated e i b s))) i = Some d' \<and>
              date d' = date d \<and> time d' = time d \<and>
              ((status d' = Some ''confirmed'' \<and> inlet d' \<noteq> None) \<or>
               (status d' = Some ''conflict'' \<and> inlet d' = inlet d) \<or>
               (status d' = Some ''error'' \<and> inlet d' = inlet d) \<or>
               (status d' = Some ''error'' \<and> inlet d' \<noteq> None \<and>
                (js_or (email b) (hostEmail b) = None \<or> js_or (name b) (hostName b) = None)))"
  using assms
  by (auto simp: onBookingCreated_def onBookingCreated_try_def Let_def toISOString_def
      createInletCredential_def queueConfirmationEmail_def addMail_def map_of_updateDoc
      split: option.splits sum.splits prod.splits if_splits)

text \<open>
  C2, amended. After \<open>onBookingCreated\<close> on a pending booking without a credential, a
  record with status \<open>confirmed\<close> carries the \<open>inlet\<close> sub-record, and for a booking that
  names a recipient and a holder the sub-record is present exactly when the status is
  \<open>confirmed\<close>. On a cancellation and on a deletion the trigger makes one revoke request
  for the credential the former data held, and none when it held none; it writes nothing
  to the bookings, so a cancelled record keeps its \<open>inlet\<close> sub-record and a deleted one
  is gone.
\<close>

theorem credential_lifecycle:
  "(status b = Some ''pending'' \<and> map_of (bookings s) bookingId = Some b \<and> inlet b = None \<longrightarrow>
      (\<exists>d. map_of (bookings (snd (onBookingCreated e bookingId b s))) bookingId = Some d \<and>
           (status d = Some ''confirmed'' \<longrightarrow> inlet d \<noteq> None) \<and>
           (js_or (email b) (hostEmail b) \<noteq> None \<and> js_or (name b) (hostName b) \<noteq> None \<longrightarrow>
              (inlet d \<noteq> None) = (status d = Some ''confirmed''))))
   \<and> (status after = Some ''cancelled'' \<and> status before \<noteq> Some ''cancelled'' \<longrightarrow>
        gateway (snd (onBookingUpdated e bookingId before after s)) =
          gateway s @ (case heldCredential before of
                         None \<Rightarrow> [] | Some cid \<Rightarrow> [RevokeCredential cid]) \<and>
        bookings (snd (onBookingUpdated e bookingId before after s)) = bookings s)
   \<and> gateway (snd (onBookingDeleted bookingId b s)) =
        gateway s @ (case heldCredential b of None \<Rightarrow> [] | Some cid \<Rightarrow> [RevokeCredential cid])
   \<and> bookings (snd (onBookingDeleted bookingId b s)) = bookings s"
proof -
  have created: "\<exists>d. map_of (bookings (snd (onBookingCreated e bookingId b s))) bookingId = Some d \<and>
           (status d = Some ''confirmed'' \<longrightarrow> inlet d \<noteq> None) \<and>
           (js_or (email b) (hostEmail b) \<noteq> None \<and> js_or (name b) (hostName b) \<noteq> None \<longrightarrow>
              (inlet d \<noteq> None) = (status d = Some ''confirmed''))"
    if "status b = Some ''pending''" "map_of (bookings s) bookingId = Some b" "inlet b = None"
    using onBookingCreated_doc [OF that(1,2), of e] that(3) by auto
  have cancelled: "gateway (snd (onBookingUpdated e bookingId before after s)) =
          gateway s @ (case heldCredential before of
                         None \<Rightarrow> [] | Some cid \<Rightarrow> [RevokeCredential cid]) \<and>
        bookings (snd (onBookingUpdated e bookingId before after s)) = bookings s"
    if "status after = Some ''cancelled''" "status before \<noteq> Some ''cancelled''"
    using onBookingUpdated_cancellation_gateway [OF that, of e bookingId s]
    by (simp add: revocationOf_def)
  have deleted: "gateway (snd (onBookingDeleted bookingId b s)) =
        gateway s @ (case heldCredential b of None \<Rightarrow> [] | Some cid \<Rightarrow> [RevokeCredential cid])
      \<and> bookings (snd (onBookingDeleted bookingId b s)) = bookings s"
    by (simp add: onBookingDeleted_def revokeInletCredential_def split: option.splits)
  from created cancelled deleted show ?thesis by blast
qed

theorem credential_lifecycle_witness:
  "(\<exists>d. map_of (bookings (snd (onBookingCreated exEnv ''A'' exAlice exPendingStore))) ''A'' =
          Some d \<and>
        (inlet d \<noteq> None) = (status d = Some ''confirmed''))
   \<and> gateway (snd (onBookingUpdated exEnv ''A'' exAliceConfirmed exAliceCancelled
                     exCancelStore)) =
       [RevokeCredential ''inlet_cred_7'']
   \<and> gateway (snd (onBookingDeleted ''A'' exAliceConfirmed initial)) =
       [RevokeCredential ''inlet_cred_7'']"
proof -
  have created: "\<exists>d. map_of (bookings (snd (onBookingCreated exEnv ''A'' exAlice exPendingStore)))
                      ''A'' = Some d \<and>
        (inlet d \<noteq> None) = (status d = Some ''confirmed'')"
    using credential_lifecycle [of exAlice exPendingStore "''A''" exEnv exAliceCancelled
            exAliceConfirmed]
    by (auto simp: exAlice_def emptyBooking_def exPendingStore_def js_or_def)
  have cancelled: "gateway (snd (onBookingUpdated exEnv ''A'' exAliceConfirmed exAliceCancelled
                     exCancelStore)) = [RevokeCredential ''inlet_cred_7'']"
    using credential_lifecycle [of exAliceConfirmed exCancelStore "''A''" exEnv
            exAliceCancelled exAliceConfirmed]
    by (simp add: exAlice_def exAliceConfirmed_def exAliceCancelled_def emptyBooking_def
        heldCredential_def exCancelStore_def)
  have deleted: "gateway (snd (onBookingDeleted ''A'' exAliceConfirmed initial)) =
       [RevokeCredential ''inlet_cred_7'']"
    using credential_lifecycle [of exAliceConfirmed initial "''A''" exEnv exAliceCancelled
            exAliceConfirmed]
    by (simp add: exAliceConfirmed_def heldCredential_def initial_def)
  from created cancelled deleted show ?thesis by blast
qed

subsection \<open>No double booking\<close>

lemma exBob_created:
  "step (Created exEnv2 ''B'' exBobLater) (step (Created exEnv ''A'' exAlice) initial) =
     \<lparr>bookings = [(''A'', exAliceConfirmed), (''B'', exBobLaterConfirmed)],
      mail = [\<lparr>mailTo = Some ''a@x.com'', templateName = ''booking-confirmation'',
               dataUserName = Some ''Alice'', dataBookingDate = ''Friday 16 January 2026'',
               dataBookingTime = ''14:00'', dataAccessCode = Some ''4321'',
               dataBookingType = Some ''Individual Booking''\<rparr>,
              \<lparr>mailTo = Some ''b@x.com'', templateName = ''booking-confirmation'',
               dataUserName = Some ''Bob'', dataBookingDate = ''Friday 16 January 2026'',
               dataBookingTime = ''15:00'', dataAccessCode = Some ''5678'',
               dataBookingType = Some ''Individual Booking''\<rparr>],
      gateway = [CreateCredential ''YOUR_INLET_LOCK_ID'' 1768572000000 1768575600000
                   (Some ''Alice'') (Some ''a@x.com''),
                 CreateCredential ''YOUR_INLET_LOCK_ID'' 1768575600000 1768579200000
                   (Some ''Bob'') (Some ''b@x.com'')]\<rparr>"
  unfolding exAlice_created
  by (simp add: onBookingCreated_def onBookingCreated_try_def exBobLater_def exBob_def
      exBobLaterConfirmed_def exAliceConfirmed_def exAlice_def emptyBooking_def exEnv_def
      exEnv2_def validateSlotFree_def slotQuery_def parseBookingDateTime_def plusHour_def
      newDate_def toISOString_def createInletCredential_def RESOURCE_MAPPING_def
      js_or_default_def js_or_def updateDoc_def inletOf_def queueConfirmationEmail_def
      addMail_def string_of_nat.simps Let_def)

lemma exBob_moved_step:
  "bookings (step (Updated exEnv3 ''B'' exBobOntoAlice)
     \<lparr>bookings = [(''A'', exAliceConfirmed), (''B'', exBobLaterConfirmed)],
      mail = ms, gateway = gs\<rparr>) =
     [(''A'', exAliceConfirmed),
      (''B'', exBobOntoAlice\<lparr>inlet := Some \<lparr>credentialId = ''inlet_cred_9'', code = ''9012'',
                                            issuedAt = 0\<rparr>\<rparr>)]"
proof -
  have held: "heldCredential exBobLaterConfirmed = Some ''inlet_cred_8''"
    by (simp add: heldCredential_def exBobLaterConfirmed_def)
  have parse: "parseBookingDateTime exEnv3 (date exBobOntoAlice) (time exBobOntoAlice) =
               Some 1768572000000"
    by (simp add: parseBookingDateTime_def exEnv3_def exEnv_def exBobOntoAlice_def
        exBobLaterConfirmed_def exBobLater_def exBob_def emptyBooking_def)
  have res: "js_or_default (resourceId exBobOntoAlice) ''prayer_room'' = ''prayer_room''"
      "js_or (email exBobOntoAlice) (hostEmail exBobOntoAlice) = Some ''b@x.com''"
      "js_or (name exBobOntoAlice) (hostName exBobOntoAlice) = Some ''Bob''"
    by (simp_all add: js_or_default_def js_or_def exBobOntoAlice_def
        exBobLaterConfirmed_def exBobLater_def exBob_def emptyBooking_def)
  have route: "status exBobOntoAlice \<noteq> Some ''cancelled''"
      "time exBobLaterConfirmed \<noteq> time exBobOntoAlice"
    by (simp_all add: exBobOntoAlice_def exBobLaterConfirmed_def exBobLater_def exBob_def
        emptyBooking_def)
  have env: "dateNow exEnv3 = 9" "randomCode exEnv3 = 9012" "serverTimestamp exEnv3 = 0"
    by (simp_all add: exEnv3_def exEnv_def)
  show ?thesis
    using route
    by (simp add: onBookingUpdated_def handleTimeChange_def held parse res env Let_def
        revokeInletCredential_def plusHour_def newDate_def toISOString_def
        createInletCredential_def RESOURCE_MAPPING_def updateDoc_def
        inletOf_def queueUpdateEmail_def addMail_def string_of_nat.simps)
qed

lemma exBob_moved:
  "bookings (run [Created exEnv ''A'' exAlice, Created exEnv2 ''B'' exBobLater,
                  Updated exEnv3 ''B'' exBobOntoAlice] initial) =
     [(''A'', exAliceConfirmed),
      (''B'', exBobOntoAlice\<lparr>inlet := Some \<lparr>credentialId = ''inlet_cred_9'', code = ''9012'',
                                            issuedAt = 0\<rparr>\<rparr>)]"
  unfolding run_def fold_simps exBob_created o_apply
  by (rule exBob_moved_step)

text \<open>
  C1. The claim: at every state reached through the triggers, at most one booking with
  status \<open>pending\<close> or \<open>confirmed\<close> holds a given resource, date and time. The code on
  this run: two bookings are created pending on different times and both are confirmed;
  the second is then rescheduled onto the time of the first. \<open>handleTimeChange\<close>
  reissues its credential without the \<open>validateSlotFree\<close> check that \<open>onBookingCreated\<close>
  makes, and two confirmed bookings hold the same resource, date and time.
\<close>

theorem reschedule_double_booking:
  "map (\<lambda>(i, b). (i, js_or_default (resourceId b) ''prayer_room'', date b, time b, status b))
     (bookings (run [Created exEnv ''A'' exAlice, Created exEnv2 ''B'' exBobLater,
                     Updated exEnv3 ''B'' exBobOntoAlice] initial)) =
     [(''A'', ''prayer_room'', ''2026-01-16'', ''14:00'', Some ''confirmed''),
      (''B'', ''prayer_room'', ''2026-01-16'', ''14:00'', Some ''confirmed'')]"
  unfolding exBob_moved
  by (simp add: js_or_default_def exBobOntoAlice_def exBobLaterConfirmed_def exBobLater_def
      exBob_def exAliceConfirmed_def exAlice_def emptyBooking_def)

text \<open>The state this run reaches breaks the invariant.\<close>

lemma reschedule_breaks_invariant:
  "\<not> noDoubleBooking
       (run [Created exEnv ''A'' exAlice, Created exEnv2 ''B'' exBobLater,
             Updated exEnv3 ''B'' exBobOntoAlice] initial)"
  unfolding noDoubleBooking_def exBob_moved
  by (simp add: active_def exBobOntoAlice_def exBobLaterConfirmed_def exBobLater_def
      exBob_def exAliceConfirmed_def exAlice_def emptyBooking_def)

subsection \<open>The booking form\<close>

lemma objects_status:
  "handleBookingSubmit_objects br f d t = Inr (firestoreBooking, newBooking) \<Longrightarrow>
   status firestoreBooking = None \<and> status newBooking = None \<and>
   inlet firestoreBooking = None \<and> date firestoreBooking = d \<and> time firestoreBooking = t"
  by (auto simp: handleBookingSubmit_objects_def Let_def emptyBooking_def split: if_splits)

lemma exForm_submitted:
  "handleBookingSubmit exBrowser exForm exPage initial =
     (Shown \<lparr>successTitle = ''Booking Confirmed!'', successMessage = ''Thank you, Alice!'',
             shownAccessCode = ''2468'', shownEmailSent = True\<rparr>,
      exPage\<lparr>myBookings :=
               [\<lparr>myId = ''F1'', myDate = ''2026-01-16'', myTime = ''14:00'',
                 myName = Some ''Alice'', myIsClass = False\<rparr>],
             emailjsRequests :=
               [\<lparr>to_name = Some ''Alice'', to_email = Some ''a@x.com'',
                 access_code = Some ''2468'', booking_date = ''Friday 16 January 2026'',
                 booking_time = ''2:00 PM - 3:00 PM'',
                 reply_to = ''thomas.hart@stmarkscoventry.org''\<rparr>]\<rparr>,
      \<lparr>bookings = [(''F1'', exFormDoc)], mail = [], gateway = []\<rparr>)"
  by (simp add: handleBookingSubmit_def handleBookingSubmit_objects_def exBrowser_def
      exForm_def exPage_def initial_def generateAccessCode_def myBookingOf_def
      emptyBooking_def js_show_def string_of_nat.simps sendConfirmationEmail_def
      formatTimeDisplay_def string_of_int_def exFormDoc_def Let_def)

text \<open>
  C3 as stated fails: the document the form writes for Alice has no \<open>status\<close> at all, so
  it is neither \<open>pending\<close> nor \<open>confirmed\<close>.
\<close>

theorem form_document_status_counterexample:
  "\<not> storedPendingOrConfirmed (snd (snd (handleBookingSubmit exBrowser exForm exPage initial)))"
  unfolding exForm_submitted
  by (simp add: storedPendingOrConfirmed_def exFormDoc_def emptyBooking_def)

text \<open>
  C3, amended. Whatever the form holds, when the submission reaches the store the
  document added there is the object built for Firestore, it has no \<open>status\<close> (nor has
  the object kept locally), and \<open>onBookingCreated\<close> on it is a no-op in every state: no
  booking created through the form is processed by the create trigger.
\<close>

theorem form_document_not_processed:
  assumes "selectedSlot p = Some (d, t)"
    and "handleBookingSubmit_objects br f d t = Inr (firestoreBooking, newBooking)"
    and "firebaseReady p" and "addDocResult br = Some firestoreId"
  shows "bookings (snd (snd (handleBookingSubmit br f p s))) =
           bookings s @ [(firestoreId, firestoreBooking)]
       \<and> status firestoreBooking = None \<and> status newBooking = None
       \<and> onBookingCreated e firestoreId firestoreBooking s' = (Null, s')"
proof -
  from assms(2) have st: "status firestoreBooking = None" "status newBooking = None"
    by (simp_all add: objects_status)
  have "bookings (snd (snd (handleBookingSubmit br f p s))) =
           bookings s @ [(firestoreId, firestoreBooking)]"
    using assms by (simp add: handleBookingSubmit_def Let_def split: prod.splits)
  moreover have "onBookingCreated e firestoreId firestoreBooking s' = (Null, s')"
    using st by (simp add: onBookingCreated_def)
  ultimately show ?thesis using st by simp
qed

theorem form_document_not_processed_witness:
  "bookings (snd (snd (handleBookingSubmit exBrowser exClassForm exPage initial))) =
     [(''F1'', exClass)]
   \<and> status exClass = None
   \<and> onBookingCreated exEnv ''F1'' exClass
        \<lparr>bookings = [(''F1'', exClass)], mail = [], gateway = []\<rparr> =
       (Null, \<lparr>bookings = [(''F1'', exClass)], mail = [], gateway = []\<rparr>)"
proof -
  have obj: "handleBookingSubmit_objects exBrowser exClassForm ''2026-01-16'' ''14:00'' =
      Inr (exClass, exClass\<lparr>phone := Some [], accessCode := Some ''2468'',
                            createdAt := Some ''2026-01-10T09:00:00.000Z''\<rparr>)"
    by (simp add: handleBookingSubmit_objects_def exClassForm_def exClass_def exBrowser_def
        generateAccessCode_def string_of_nat.simps Let_def)
  have sel: "selectedSlot exPage = Some (''2026-01-16'', ''14:00'')"
    and rdy: "firebaseReady exPage" and add: "addDocResult exBrowser = Some ''F1''"
    by (simp_all add: exPage_def exBrowser_def)
  from form_document_not_processed [OF sel obj rdy add, of initial exEnv
      "\<lparr>bookings = [(''F1'', exClass)], mail = [], gateway = []\<rparr>"]
  show ?thesis by (simp add: initial_def)
qed

text \<open>A draw of \<open>Math.floor(1000 + Math.random() * 9000)\<close> prints as four digits.\<close>

lemma generateAccessCode_four_digits:
  assumes "1000 \<le> generatedCode br" and "generatedCode br < 10000"
  shows "length (generateAccessCode br) = 4"
proof -
  have "length (string_of_nat n) = 4" if "1000 \<le> n" "n < 10000" for n
  proof -
    from that have a: "\<not> n < 10" "\<not> n div 10 < 10" "\<not> n div 10 div 10 < 10"
        "n div 10 div 10 div 10 < 10"
      by simp_all
    show ?thesis
      by (subst string_of_nat.simps, simp only: a if_False,
          subst string_of_nat.simps, simp only: a if_False,
          subst string_of_nat.simps, simp only: a if_False,
          subst string_of_nat.simps, simp only: a if_True) simp
  qed
  with assms show ?thesis by (simp add: generateAccessCode_def)
qed

text \<open>Two numbers that print alike are equal: the digits give the number back.\<close>

lemma digit_value: "k < 10 \<Longrightarrow> (of_char (''0123456789'' ! k) :: nat) = 48 + k"
proof -
  assume "k < 10"
  then have "k = 0 \<or> k = 1 \<or> k = 2 \<or> k = 3 \<or> k = 4 \<or> k = 5 \<or> k = 6 \<or> k = 7 \<or>
             k = 8 \<or> k = 9"
    by arith
  then show ?thesis by (elim disjE) simp_all
qed

lemma value_string_of_nat:
  "foldl (\<lambda>a c. 10 * a + (of_char c - 48)) 0 (string_of_nat n) = n"
proof (induction n rule: string_of_nat.induct)
  case (1 n)
  show ?case
  proof (cases "n < 10")
    case True
    then show ?thesis
      by (subst string_of_nat.simps) (simp add: digit_value)
  next
    case False
    with 1 have "foldl (\<lambda>a c. 10 * a + (of_char c - 48)) 0 (string_of_nat (n div 10)) = n div 10"
      by simp
    with False show ?thesis
      by (subst string_of_nat.simps) (simp add: digit_value)
  qed
qed

lemma string_of_nat_inject: "(string_of_nat m = string_of_nat n) = (m = n)"
  by (metis value_string_of_nat)

text \<open>
  Where the create trigger does issue a credential, the code it writes into the record
  is the gateway's draw, whether or not the confirmation mail is accepted afterwards.
\<close>

lemma onBookingCreated_issues:
  assumes "status b = Some ''pending''" and "validateSlotFree s (date b) (time b) i"
    and "parseBookingDateTime e (date b) (time b) = Some st"
    and "\<bar>st + 60 * 60 * 1000\<bar> \<le> 8640000000000000"
    and "RESOURCE_MAPPING (js_or_default (resourceId b) ''prayer_room'') = Some lock"
    and "map_of (bookings s) i = Some d"
  shows "\<exists>d'. map_of (bookings (snd (onBookingCreated e i b s))) i = Some d' \<and>
              inlet d' = Some \<lparr>credentialId = ''inlet_cred_'' @ string_of_nat (dateNow e),
                               code = string_of_nat (randomCode e),
                               issuedAt = serverTimestamp e\<rparr>"
  using assms
  by (auto simp: onBookingCreated_def onBookingCreated_try_def Let_def toISOString_def
      plusHour_def newDate_def createInletCredential_def queueConfirmationEmail_def
      addMail_def map_of_updateDoc inletOf_def
      split: option.splits sum.splits prod.splits if_splits)
text \<open>
  C10 as stated fails on its last part: the create trigger writes no credential into
  the record the form stored for Alice, so there is no credential code in that record
  for the shown code to differ from.
\<close>

theorem form_record_without_credential_counterexample:
  "\<not> credentialWritten ''F1''
       (snd (onBookingCreated exEnv ''F1'' exFormDoc
               (snd (snd (handleBookingSubmit exBrowser exForm exPage initial)))))"
  unfolding exForm_submitted
  by (simp add: credentialWritten_def onBookingCreated_def exFormDoc_def emptyBooking_def)

text \<open>
  C10, amended. For an individual booking submitted while the store accepts the save,
  the document added to the store has \<open>date\<close>, \<open>time\<close>, \<open>name\<close> and \<open>isClass = false\<close> and
  no other field: the e-mail address, the phone number and the generated access code are
  not written to the store. Name, address and code go to EmailJS when its SDK is loaded.
  The code shown to the user is the page's own draw. \<open>onBookingCreated\<close> on the stored
  document is a no-op, so it writes no credential into this record; on a pending booking
  for which it can issue a credential, the code it writes is the gateway's draw, equal
  to the shown code only when the two draws coincide.
\<close>

theorem individual_booking_document:
  assumes "selectedSlot p = Some (d, t)"
    and "\<not> isClassBooking f" and "bookingName f \<noteq> []"
    and "firebaseReady p" and "addDocResult br = Some firestoreId"
  shows "handleBookingSubmit br f p s =
           (Shown \<lparr>successTitle = ''Booking Confirmed!'',
                   successMessage = ''Thank you, '' @ bookingName f @ ''!'',
                   shownAccessCode = string_of_nat (generatedCode br),
                   shownEmailSent = (emailjsLoaded br \<and> emailjsResolves br)\<rparr>,
            p\<lparr>myBookings := myBookings p @
                 [\<lparr>myId = firestoreId, myDate = d, myTime = t,
                   myName = Some (bookingName f), myIsClass = False\<rparr>],
              emailjsRequests := emailjsRequests p @
                 (if emailjsLoaded br then
                    [\<lparr>to_name = Some (bookingName f),
                      to_email = Some (bookingEmail f),
                      access_code = Some (string_of_nat (generatedCode br)),
                      booking_date = dateToLocale br d,
                      booking_time = formatTimeDisplay br t,
                      reply_to = ''thomas.hart@stmarkscoventry.org''\<rparr>]
                  else [])\<rparr>,
            s\<lparr>bookings := bookings s @
                 [(firestoreId,
                   \<lparr>date = d, time = t, status = None, resourceId = None,
                    name = Some (bookingName f), email = None, phone = None,
                    isClass = Some False, className = None, hostName = None,
                    hostEmail = None, maxParticipants = None, participants = None,
                    participantCount = None, inlet = None, error = None,
                    accessCode = None, createdAt = None\<rparr>)]\<rparr>)
       \<and> onBookingCreated e firestoreId
             \<lparr>date = d, time = t, status = None, resourceId = None,
              name = Some (bookingName f), email = None, phone = None,
              isClass = Some False, className = None, hostName = None,
              hostEmail = None, maxParticipants = None, participants = None,
              participantCount = None, inlet = None, error = None,
              accessCode = None, createdAt = None\<rparr> s' = (Null, s')
       \<and> (\<forall>b i st lock d0.
             status b = Some ''pending'' \<and> validateSlotFree s' (date b) (time b) i \<and>
             parseBookingDateTime e (date b) (time b) = Some st \<and>
             \<bar>st + 60 * 60 * 1000\<bar> \<le> 8640000000000000 \<and>
             RESOURCE_MAPPING (js_or_default (resourceId b) ''prayer_room'') = Some lock \<and>
             map_of (bookings s') i = Some d0 \<longrightarrow>
             (\<exists>d' c. map_of (bookings (snd (onBookingCreated e i b s'))) i = Some d' \<and>
                     inlet d' = Some c \<and>
                     code c = string_of_nat (randomCode e) \<and>
                     (code c = string_of_nat (generatedCode br)) =
                       (randomCode e = generatedCode br)))"
proof (intro conjI allI impI)
  show "handleBookingSubmit br f p s =
           (Shown \<lparr>successTitle = ''Booking Confirmed!'',
                   successMessage = ''Thank you, '' @ bookingName f @ ''!'',
                   shownAccessCode = string_of_nat (generatedCode br),
                   shownEmailSent = (emailjsLoaded br \<and> emailjsResolves br)\<rparr>,
            p\<lparr>myBookings := myBookings p @
                 [\<lparr>myId = firestoreId, myDate = d, myTime = t,
                   myName = Some (bookingName f), myIsClass = False\<rparr>],
              emailjsRequests := emailjsRequests p @
                 (if emailjsLoaded br then
                    [\<lparr>to_name = Some (bookingName f),
                      to_email = Some (bookingEmail f),
                      access_code = Some (string_of_nat (generatedCode br)),
                      booking_date = dateToLocale br d,
                      booking_time = formatTimeDisplay br t,
                      reply_to = ''thomas.hart@stmarkscoventry.org''\<rparr>]
                  else [])\<rparr>,
            s\<lparr>bookings := bookings s @
                 [(firestoreId,
                   \<lparr>date = d, time = t, status = None, resourceId = None,
                    name = Some (bookingName f), email = None, phone = None,
                    isClass = Some False, className = None, hostName = None,
                    hostEmail = None, maxParticipants = None, participants = None,
                    participantCount = None, inlet = None, error = None,
                    accessCode = None, createdAt = None\<rparr>)]\<rparr>)"
    using assms
    by (simp add: handleBookingSubmit_def handleBookingSubmit_objects_def Let_def
        generateAccessCode_def myBookingOf_def emptyBooking_def js_show_def
        sendConfirmationEmail_def)
next
  show "onBookingCreated e firestoreId
             \<lparr>date = d, time = t, status = None, resourceId = None,
              name = Some (bookingName f), email = None, phone = None,
              isClass = Some False, className = None, hostName = None,
              hostEmail = None, maxParticipants = None, participants = None,
              participantCount = None, inlet = None, error = None,
              accessCode = None, createdAt = None\<rparr> s' = (Null, s')"
    by (simp add: onBookingCreated_def)
next
  fix b :: booking and i st lock d0
  assume h: "status b = Some ''pending'' \<and> validateSlotFree s' (date b) (time b) i \<and>
             parseBookingDateTime e (date b) (time b) = Some st \<and>
             \<bar>st + 60 * 60 * 1000\<bar> \<le> 8640000000000000 \<and>
             RESOURCE_MAPPING (js_or_default (resourceId b) ''prayer_room'') = Some lock \<and>
             map_of (bookings s') i = Some d0"
  then obtain d' where
    d': "map_of (bookings (snd (onBookingCreated e i b s'))) i = Some d'"
        "inlet d' = Some \<lparr>credentialId = ''inlet_cred_'' @ string_of_nat (dateNow e),
                          code = string_of_nat (randomCode e),
                          issuedAt = serverTimestamp e\<rparr>"
    using onBookingCreated_issues [of b s' i e st lock d0] by blast
  then show "\<exists>d' c. map_of (bookings (snd (onBookingCreated e i b s'))) i = Some d' \<and>
                     inlet d' = Some c \<and>
                     code c = string_of_nat (randomCode e) \<and>
                     (code c = string_of_nat (generatedCode br)) =
                       (randomCode e = generatedCode br)"
    by (simp add: string_of_nat_inject)
qed

theorem individual_booking_document_witness:
  "handleBookingSubmit exBrowser exForm exPage initial =
     (Shown \<lparr>successTitle = ''Booking Confirmed!'', successMessage = ''Thank you, Alice!'',
             shownAccessCode = ''2468'', shownEmailSent = True\<rparr>,
      exPage\<lparr>myBookings :=
               [\<lparr>myId = ''F1'', myDate = ''2026-01-16'', myTime = ''14:00'',
                 myName = Some ''Alice'', myIsClass = False\<rparr>],
             emailjsRequests :=
               [\<lparr>to_name = Some ''Alice'', to_email = Some ''a@x.com'',
                 access_code = Some ''2468'', booking_date = ''Friday 16 January 2026'',
                 booking_time = ''2:00 PM - 3:00 PM'',
                 reply_to = ''thomas.hart@stmarkscoventry.org''\<rparr>]\<rparr>,
      \<lparr>bookings =
         [(''F1'', \<lparr>date = ''2026-01-16'', time = ''14:00'', status = None, resourceId = None,
                    name = Some ''Alice'', email = None, phone = None,
                    isClass = Some False, className = None, hostName = None,
                    hostEmail = None, maxParticipants = None, participants = None,
                    participantCount = None, inlet = None, error = None,
                    accessCode = None, createdAt = None\<rparr>)],
       mail = [], gateway = []\<rparr>)
   \<and> (\<exists>d' c. map_of (bookings (snd (onBookingCreated exEnv ''A'' exAlice exPendingStore))) ''A'' =
                Some d' \<and>
              inlet d' = Some c \<and> code c = ''4321'' \<and> code c \<noteq> ''2468'')"
proof -
  have sel: "selectedSlot exPage = Some (''2026-01-16'', ''14:00'')"
    and ind: "\<not> isClassBooking exForm" "bookingName exForm \<noteq> []"
    and rdy: "firebaseReady exPage" and add: "addDocResult exBrowser = Some ''F1''"
    by (simp_all add: exPage_def exForm_def exBrowser_def)
  note inst = individual_booking_document [OF sel ind rdy add, of initial exEnv exPendingStore]
  have shown: "handleBookingSubmit exBrowser exForm exPage initial =
     (Shown \<lparr>successTitle = ''Booking Confirmed!'', successMessage = ''Thank you, Alice!'',
             shownAccessCode = ''2468'', shownEmailSent = True\<rparr>,
      exPage\<lparr>myBookings :=
               [\<lparr>myId = ''F1'', myDate = ''2026-01-16'', myTime = ''14:00'',
                 myName = Some ''Alice'', myIsClass = False\<rparr>],
             emailjsRequests :=
               [\<lparr>to_name = Some ''Alice'', to_email = Some ''a@x.com'',
                 access_code = Some ''2468'', booking_date = ''Friday 16 January 2026'',
                 booking_time = ''2:00 PM - 3:00 PM'',
                 reply_to = ''thomas.hart@stmarkscoventry.org''\<rparr>]\<rparr>,
      \<lparr>bookings =
         [(''F1'', \<lparr>date = ''2026-01-16'', time = ''14:00'', status = None, resourceId = None,
                    name = Some ''Alice'', email = None, phone = None,
                    isClass = Some False, className = None, hostName = None,
                    hostEmail = None, maxParticipants = None, participants = None,
                    participantCount = None, inlet = None, error = None,
                    accessCode = None, createdAt = None\<rparr>)],
       mail = [], gateway = []\<rparr>)"
    using inst
    by (simp add: exPage_def exForm_def exBrowser_def initial_def string_of_nat.simps
        formatTimeDisplay_def string_of_int_def)
  have pre: "status exAlice = Some ''pending'' \<and>
             validateSlotFree exPendingStore (date exAlice) (time exAlice) ''A'' \<and>
             parseBookingDateTime exEnv (date exAlice) (time exAlice) = Some 1768572000000 \<and>
             \<bar>1768572000000 + 60 * 60 * 1000\<bar> \<le> (8640000000000000 :: int) \<and>
             RESOURCE_MAPPING (js_or_default (resourceId exAlice) ''prayer_room'') =
               Some ''YOUR_INLET_LOCK_ID'' \<and>
             map_of (bookings exPendingStore) ''A'' = Some exAlice"
    by (simp add: exAlice_def emptyBooking_def exPendingStore_def validateSlotFree_def
        slotQuery_def parseBookingDateTime_def exEnv_def RESOURCE_MAPPING_def
        js_or_default_def)
  from inst pre obtain d' c where
    "map_of (bookings (snd (onBookingCreated exEnv ''A'' exAlice exPendingStore))) ''A'' = Some d'"
    "inlet d' = Some c" "code c = string_of_nat (randomCode exEnv)"
    "(code c = string_of_nat (generatedCode exBrowser)) = (randomCode exEnv = generatedCode exBrowser)"
    by blast
  then have "\<exists>d' c. map_of (bookings (snd (onBookingCreated exEnv ''A'' exAlice exPendingStore))) ''A'' =
                Some d' \<and>
              inlet d' = Some c \<and> code c = ''4321'' \<and> code c \<noteq> ''2468''"
    by (intro exI [of _ d'] exI [of _ c])
       (simp add: exEnv_def exBrowser_def string_of_nat.simps)
  with shown show ?thesis by simp
qed

subsection \<open>Classes\<close>

text \<open>
  What \<open>handleJoinClass\<close> decides on the page's copy of the record: a copy at capacity
  refuses the join and leaves the store as it was; a copy below capacity makes the page
  write the copy's list with the name appended, and the length of that list, over the
  stored fields.
\<close>

lemma handleJoinClass_full:
  assumes "joinName \<noteq> []" and "bookingId \<noteq> []" and "firebaseReady p"
    and "find (\<lambda>(i, b). i = bookingId) (bookedSlots p) = Some (bookingId, b)"
    and "isClass b = Some True"
    and "participantCount b = Some c" and "maxParticipants b = Some c"
  shows "handleJoinClass br joinName bookingId p s = (JoinError ''Class is full'', s)"
  using assms by (simp add: handleJoinClass_def js_ge_def)

lemma handleJoinClass_below:
  assumes "joinName \<noteq> []" and "bookingId \<noteq> []" and "firebaseReady p"
    and "find (\<lambda>(i, b). i = bookingId) (bookedSlots p) = Some (bookingId, b)"
    and "isClass b = Some True" and "participants b = Some ps"
    and "participantCount b = Some c" and "maxParticipants b = Some m" and "c < m"
    and "bookingId \<in> fst ` set (bookings s)"
  shows "handleJoinClass br joinName bookingId p s =
           (Joined, updateDoc bookingId
              (\<lambda>d. d\<lparr>participants := Some (ps @ [joinName]),
                      participantCount := Some (int (length ps) + 1)\<rparr>) s)"
  using assms by (simp add: handleJoinClass_def js_ge_def Let_def add.commute)

text \<open>
  C9. The claim: joining a class whose \<open>participantCount\<close> equals \<open>maxParticipants\<close>
  fails with \<open>Class is full\<close> and leaves the record unchanged, and a join appends one
  name. The code at this join: the stored class is full (Hannah and Ian, 2 of 2) while
  the page's copy in \<open>bookedSlots\<close> still shows Hannah alone. \<open>handleJoinClass\<close> reads
  the copy, lets Jo join, and writes the copy's list with Jo appended over the stored
  one: the join into the full class succeeds and Ian is gone.
\<close>

theorem stale_join_into_full_class:
  "map_of (bookings exFullStore) ''F1'' = Some exClassFull
   \<and> participantCount exClassFull = maxParticipants exClassFull
   \<and> participants exClassFull = Some [''Hannah'', ''Ian'']
   \<and> handleJoinClass exBrowser ''Jo'' ''F1'' exClassPage exFullStore =
       (Joined,
        \<lparr>bookings =
           [(''F1'', exClassFull\<lparr>participants := Some [''Hannah'', ''Jo''],
                                participantCount := Some 2\<rparr>)],
         mail = [], gateway = []\<rparr>)"
  by (simp add: handleJoinClass_def exClassPage_def exFullStore_def exClass_def
      exClassFull_def emptyBooking_def js_ge_def updateDoc_def)

end
